theory Spec2Isabelle
  imports Complex_Main
begin

section \<open>The real-number engine (decimal.js values)\<close>

text \<open>
  Modelled from the spec: the real-number engine (the library decimal.js) is an external
  collaborator whose code is not part of the sources. Its values and operations are
  modelled from its documented semantics: arbitrary-precision decimals, results rounded
  to the configured number of significant digits, NaN and the infinities handled as in
  IEEE 754.

  The complex type wraps two values of the engine. A value of the engine is NaN, a signed
  infinity, or a finite number with a sign; zero keeps its sign, so negative zero is a
  value of its own. Finite values are kept by their exact rational value. The engine's
  exponent limits are not modelled: a finite value never overflows to infinity.
\<close>

datatype sign = Pos | Neg

datatype decimal = NaN | Infty sign | NegZero | Fin rat

text \<open>The engine's default precision: results of arithmetic keep 20 significant digits.\<close>

definition precision :: nat where
  "precision = 20"

definition pow10 :: "int \<Rightarrow> rat" where
  "pow10 k = (if 0 \<le> k then 10 ^ nat k else 1 / 10 ^ nat (- k))"

text \<open>Number of decimal digits of a positive integer (0 has none).\<close>

function ndigits :: "int \<Rightarrow> nat" where
  "ndigits n = (if n \<le> 0 then 0 else Suc (ndigits (n div 10)))"
  by pat_completeness auto
termination
  by (relation "measure nat") auto

declare ndigits.simps [simp del]

text \<open>
  \<open>lead n q\<close>: for \<open>0 < q < 1\<close> the exponent of the first significant digit (negative),
  found by at most \<open>n\<close> multiplications by ten.
\<close>

fun lead :: "nat \<Rightarrow> rat \<Rightarrow> int" where
  "lead 0 q = 0"
| "lead (Suc n) q = (if 1 \<le> q then 0 else lead n (q * 10) - 1)"

text \<open>Decimal exponent of a positive rational: \<open>10 ^ e \<le> q < 10 ^ (e + 1)\<close>.\<close>

definition dexp :: "rat \<Rightarrow> int" where
  "dexp q = (if 1 \<le> q then int (ndigits \<lfloor>q\<rfloor>) - 1
             else lead (Suc (ndigits (snd (quotient_of q)))) q)"

text \<open>
  Rounding to \<open>precision\<close> significant digits, half away from zero (the engine's default
  rounding mode ROUND_HALF_UP). Applied by the engine to the result of every arithmetic
  operation; the constructor and negation do not round.
\<close>

definition finalise :: "rat \<Rightarrow> rat" where
  "finalise q = (if q = 0 then 0 else
     let k = int precision - 1 - dexp \<bar>q\<bar> in
       sgn q * of_int \<lfloor>\<bar>q\<bar> * pow10 k + 1 / 2\<rfloor> / pow10 k)"

subsection \<open>Constants of constants.js\<close>

definition ZERO :: decimal where "ZERO = Fin 0"
definition ONE_HALF :: decimal where "ONE_HALF = Fin (1 / 2)"
definition NEG_ONE :: decimal where "NEG_ONE = Fin (- 1)"
definition ONE :: decimal where "ONE = Fin 1"
definition TWO :: decimal where "TWO = Fin 2"
definition THREE :: decimal where "THREE = Fin 3"
definition FOUR :: decimal where "FOUR = Fin 4"
definition TEN :: decimal where "TEN = Fin 10"
definition NAN :: decimal where "NAN = NaN"
definition INFINITY :: decimal where "INFINITY = Infty Pos"

subsection \<open>Sign, comparison\<close>

fun is_nan :: "decimal \<Rightarrow> bool" where
  "is_nan NaN = True"
| "is_nan _ = False"

fun is_zero :: "decimal \<Rightarrow> bool" where
  "is_zero NegZero = True"
| "is_zero (Fin q) = (q = 0)"
| "is_zero _ = False"

fun is_finite :: "decimal \<Rightarrow> bool" where
  "is_finite NegZero = True"
| "is_finite (Fin q) = True"
| "is_finite _ = False"

text \<open>The exact value of a finite decimal (both zeros are 0).\<close>

fun val :: "decimal \<Rightarrow> rat" where
  "val (Fin q) = q"
| "val _ = 0"

text \<open>The sign field \<open>s\<close> of a value that is not NaN.\<close>

fun sign_of :: "decimal \<Rightarrow> sign" where
  "sign_of (Infty s) = s"
| "sign_of NegZero = Neg"
| "sign_of (Fin q) = (if q < 0 then Neg else Pos)"
| "sign_of NaN = Pos"

fun flip :: "sign \<Rightarrow> sign" where
  "flip Pos = Neg"
| "flip Neg = Pos"

fun sign_mul :: "sign \<Rightarrow> sign \<Rightarrow> sign" where
  "sign_mul Pos s = s"
| "sign_mul Neg s = flip s"

text \<open>A zero with the given sign.\<close>

fun zero_of :: "sign \<Rightarrow> decimal" where
  "zero_of Pos = Fin 0"
| "zero_of Neg = NegZero"

text \<open>
  Position on the extended line, for comparison: infinities below and above every finite
  value, the two zeros equal.
\<close>

fun rank :: "decimal \<Rightarrow> int \<times> rat" where
  "rank (Infty Neg) = (- 1, 0)"
| "rank (Infty Pos) = (1, 0)"
| "rank x = (0, val x)"

text \<open>\<open>cmp\<close>: None for NaN (the engine returns NaN), else -1, 0 or 1.\<close>

definition cmp :: "decimal \<Rightarrow> decimal \<Rightarrow> int option" where
  "cmp x y = (if is_nan x \<or> is_nan y then None
     else if rank x = rank y then Some 0
     else if fst (rank x) < fst (rank y)
            \<or> (fst (rank x) = fst (rank y) \<and> snd (rank x) < snd (rank y)) then Some (- 1)
     else Some 1)"

definition d_eq :: "decimal \<Rightarrow> decimal \<Rightarrow> bool" where
  "d_eq x y = (cmp x y = Some 0)"

definition d_lt :: "decimal \<Rightarrow> decimal \<Rightarrow> bool" where
  "d_lt x y = (cmp x y = Some (- 1))"

definition d_gt :: "decimal \<Rightarrow> decimal \<Rightarrow> bool" where
  "d_gt x y = (cmp x y = Some 1)"

definition d_lte :: "decimal \<Rightarrow> decimal \<Rightarrow> bool" where
  "d_lte x y = (cmp x y = Some (- 1) \<or> cmp x y = Some 0)"

definition d_gte :: "decimal \<Rightarrow> decimal \<Rightarrow> bool" where
  "d_gte x y = (cmp x y = Some 1 \<or> cmp x y = Some 0)"

subsection \<open>Exact arithmetic with rounding\<close>

fun d_neg :: "decimal \<Rightarrow> decimal" where
  "d_neg NaN = NaN"
| "d_neg (Infty s) = Infty (flip s)"
| "d_neg NegZero = Fin 0"
| "d_neg (Fin q) = (if q = 0 then NegZero else Fin (- q))"

fun d_abs :: "decimal \<Rightarrow> decimal" where
  "d_abs NaN = NaN"
| "d_abs (Infty s) = Infty Pos"
| "d_abs NegZero = Fin 0"
| "d_abs (Fin q) = Fin \<bar>q\<bar>"

text \<open>
  \<open>plus\<close>: NaN if either is NaN or for infinities of opposite sign; an infinity wins over
  a finite value; two zeros give negative zero only when both are negative; otherwise the
  exact sum, rounded (an exact sum of zero is positive zero).
\<close>

definition d_plus :: "decimal \<Rightarrow> decimal \<Rightarrow> decimal" where
  "d_plus x y = (if is_nan x \<or> is_nan y then NaN
     else if \<not> is_finite x then (if is_finite y \<or> sign_of x = sign_of y then x else NaN)
     else if \<not> is_finite y then y
     else if is_zero x \<and> is_zero y then
       (if sign_of x = Neg \<and> sign_of y = Neg then NegZero else Fin 0)
     else Fin (finalise (val x + val y)))"

text \<open>\<open>minus\<close> flips the sign of its argument and adds, as the engine does.\<close>

definition d_minus :: "decimal \<Rightarrow> decimal \<Rightarrow> decimal" where
  "d_minus x y = d_plus x (d_neg y)"

text \<open>
  \<open>times\<close>: NaN if either is NaN or for zero times infinity; the sign is the product of
  the signs, also for zero and infinity.
\<close>

definition d_times :: "decimal \<Rightarrow> decimal \<Rightarrow> decimal" where
  "d_times x y = (if is_nan x \<or> is_nan y then NaN
     else if (is_zero x \<and> \<not> is_finite y) \<or> (is_zero y \<and> \<not> is_finite x) then NaN
     else if \<not> is_finite x \<or> \<not> is_finite y then Infty (sign_mul (sign_of x) (sign_of y))
     else if is_zero x \<or> is_zero y then zero_of (sign_mul (sign_of x) (sign_of y))
     else Fin (finalise (val x * val y)))"

definition isInt :: "decimal \<Rightarrow> bool" where
  "isInt x = (is_finite x \<and> of_int \<lfloor>val x\<rfloor> = val x)"

text \<open>Truncation toward zero.\<close>

definition trunc :: "rat \<Rightarrow> int" where
  "trunc q = (if q < 0 then - \<lfloor>- q\<rfloor> else \<lfloor>q\<rfloor>)"

text \<open>
  \<open>mod\<close> (the engine's default, truncated division: the remainder has the sign of the
  dividend): NaN if the dividend is not finite or the divisor is NaN or zero; the
  dividend, rounded, if the divisor is infinite or the dividend zero; otherwise
  \<open>x - trunc (x / y) * y\<close>, rounded.
\<close>

definition d_mod :: "decimal \<Rightarrow> decimal \<Rightarrow> decimal" where
  "d_mod x y = (if \<not> is_finite x \<or> is_nan y \<or> is_zero y then NaN
     else if \<not> is_finite y \<or> is_zero x then
       (if is_zero x then x else Fin (finalise (val x)))
     else Fin (finalise (val x - of_int (trunc (val x / val y)) * val y)))"

section \<open>Engine operations that are not exact\<close>

text \<open>
  Division, roots, logarithms, powers and the trigonometric functions are computed by
  the engine's own algorithms. Their value on the special inputs (NaN, zeros,
  infinities, out-of-domain arguments) is written out below as the engine documents it;
  their value on the ordinary inputs is a parameter of the development, the record
  \<open>engine\<close>. Every statement below holds for every engine unless it names one.
\<close>

record engine =
  e_pow :: "decimal \<Rightarrow> decimal \<Rightarrow> decimal"
  e_ln :: "rat \<Rightarrow> rat"
  e_exp :: "decimal \<Rightarrow> decimal"
  e_sin :: "decimal \<Rightarrow> decimal"
  e_cos :: "decimal \<Rightarrow> decimal"
  e_sinh :: "decimal \<Rightarrow> decimal"
  e_cosh :: "decimal \<Rightarrow> decimal"
  e_asin :: "rat \<Rightarrow> rat"
  e_acos :: "decimal \<Rightarrow> decimal"
  e_atan2 :: "decimal \<Rightarrow> decimal \<Rightarrow> decimal"
  e_toString :: "rat \<Rightarrow> string"

text \<open>
  \<open>div\<close> is correctly rounded: NaN if either is NaN, for zero by zero and infinity by
  infinity; a signed zero for zero or a finite value over infinity; a signed infinity for
  a non-zero value over zero.
\<close>

definition d_div :: "decimal \<Rightarrow> decimal \<Rightarrow> decimal" where
  "d_div x y = (if is_nan x \<or> is_nan y then NaN
     else if (is_zero x \<and> is_zero y) \<or> (\<not> is_finite x \<and> \<not> is_finite y) then NaN
     else if is_zero x \<or> \<not> is_finite y then zero_of (sign_mul (sign_of x) (sign_of y))
     else if is_zero y \<or> \<not> is_finite x then Infty (sign_mul (sign_of x) (sign_of y))
     else Fin (finalise (val x / val y)))"

text \<open>An integer that a JavaScript number holds exactly.\<close>

definition small_int :: "decimal \<Rightarrow> bool" where
  "small_int y = (isInt y \<and> \<bar>val y\<bar> \<le> 2 ^ 53)"

text \<open>
  \<open>pow\<close>. With a NaN, zero or infinite operand the engine answers with JavaScript's
  \<open>Math.pow\<close> on the operands converted to numbers: 1 for a zero exponent, NaN for a NaN
  exponent, NaN for a NaN base unless the exponent converts to zero (exponents of
  absolute value at least \<open>10 ^ -300\<close> do not), and for a zero base
  and an integer exponent a zero (positive exponent) or an infinity (negative exponent),
  negative only for negative zero and an odd exponent. Otherwise a base equal to 1 is
  returned as it is, an exponent equal to 1 returns the base rounded, an exponent equal
  to 2 the exact square rounded, and the rest is the engine's algorithm.
\<close>

definition d_pow :: "engine \<Rightarrow> decimal \<Rightarrow> decimal \<Rightarrow> decimal" where
  "d_pow eng x y = (if is_zero y then Fin 1
     else if is_nan y then NaN
     else if is_nan x then
       (if \<not> is_finite y \<or> pow10 (- 300) \<le> \<bar>val y\<bar> then NaN else e_pow eng x y)
     else if is_zero x \<and> small_int y then
       (let s = (if sign_of x = Neg \<and> odd \<lfloor>val y\<rfloor> then Neg else Pos) in
          if 0 < val y then zero_of s else Infty s)
     else if \<not> is_finite x \<or> \<not> is_finite y \<or> is_zero x then e_pow eng x y
     else if val x = 1 then x
     else if val y = 1 then Fin (finalise (val x))
     else if val y = 2 then Fin (finalise (val x * val x))
     else e_pow eng x y)"

text \<open>
  Integer square root by Newton's iteration from above: the largest \<open>r\<close> with
  \<open>r * r \<le> n\<close>. The iteration starts at a power of ten that is not below the root.
\<close>

function newton :: "int \<Rightarrow> int \<Rightarrow> int" where
  "newton n x = (if x \<le> 0 then 0 else
     let y = (x + n div x) div 2 in if y < x then newton n y else x)"
  by pat_completeness auto
termination
  by (relation "measure (\<lambda>(n, x). nat x)") auto

declare newton.simps [simp del]

definition isqrt :: "int \<Rightarrow> int" where
  "isqrt n = newton n (10 ^ ((ndigits n + 1) div 2))"

text \<open>
  The square root of a positive rational, correctly rounded to \<open>precision\<close> significant
  digits (half up): with \<open>j\<close> the number of decimal places kept,
  \<open>\<lfloor>sqrt q * 10 ^ j + 1 / 2\<rfloor> = (isqrt \<lfloor>4 * q * 10 ^ (2 * j)\<rfloor> + 1) div 2\<close>.
\<close>

definition sqrt_round :: "rat \<Rightarrow> rat" where
  "sqrt_round q = (if q \<le> 0 then 0 else
     let j = int precision - 1 - dexp q div 2 in
       of_int ((isqrt \<lfloor>4 * q * pow10 (2 * j)\<rfloor> + 1) div 2) / pow10 j)"

text \<open>
  \<open>sqrt\<close> is correctly rounded: NaN for NaN and for negative values other than zero, the
  argument itself for a zero and for positive infinity.
\<close>

definition d_sqrt :: "decimal \<Rightarrow> decimal" where
  "d_sqrt x = (if is_nan x then NaN
     else if is_zero x then x
     else if sign_of x = Neg then NaN
     else if \<not> is_finite x then x
     else Fin (sqrt_round (val x)))"

text \<open>
  \<open>ln\<close>: negative infinity for a zero, NaN for NaN and negative values, 0 for 1,
  infinity for positive infinity.
\<close>

definition d_ln :: "engine \<Rightarrow> decimal \<Rightarrow> decimal" where
  "d_ln eng x = (if is_zero x then Infty Neg
     else if is_nan x \<or> sign_of x = Neg then NaN
     else if \<not> is_finite x then x
     else if val x = 1 then Fin 0
     else Fin (e_ln eng (val x)))"

text \<open>\<open>asin\<close>: a zero is returned as it is; NaN for NaN and outside \<open>[-1, 1]\<close>.\<close>

definition d_asin :: "engine \<Rightarrow> decimal \<Rightarrow> decimal" where
  "d_asin eng x = (if is_nan x then NaN
     else if is_zero x then x
     else if \<not> is_finite x \<or> 1 < \<bar>val x\<bar> then NaN
     else Fin (e_asin eng (val x)))"

text \<open>The remaining functions return NaN for NaN.\<close>

definition strict :: "(decimal \<Rightarrow> decimal) \<Rightarrow> decimal \<Rightarrow> decimal" where
  "strict f x = (if is_nan x then NaN else f x)"

definition d_exp :: "engine \<Rightarrow> decimal \<Rightarrow> decimal" where
  "d_exp eng = strict (e_exp eng)"

definition d_sin :: "engine \<Rightarrow> decimal \<Rightarrow> decimal" where
  "d_sin eng = strict (e_sin eng)"

definition d_cos :: "engine \<Rightarrow> decimal \<Rightarrow> decimal" where
  "d_cos eng = strict (e_cos eng)"

definition d_sinh :: "engine \<Rightarrow> decimal \<Rightarrow> decimal" where
  "d_sinh eng = strict (e_sinh eng)"

definition d_cosh :: "engine \<Rightarrow> decimal \<Rightarrow> decimal" where
  "d_cosh eng = strict (e_cosh eng)"

definition d_acos :: "engine \<Rightarrow> decimal \<Rightarrow> decimal" where
  "d_acos eng = strict (e_acos eng)"

definition d_atan2 :: "engine \<Rightarrow> decimal \<Rightarrow> decimal \<Rightarrow> decimal" where
  "d_atan2 eng y x = (if is_nan y \<or> is_nan x then NaN else e_atan2 eng y x)"

text \<open>
  \<open>hypot\<close>: infinity if an argument is infinite, else NaN if one is NaN, else the square
  root of the exact sum of the squares.
\<close>

definition d_hypot :: "decimal \<Rightarrow> decimal \<Rightarrow> decimal" where
  "d_hypot x y = (if (\<not> is_nan x \<and> \<not> is_finite x) \<or> (\<not> is_nan y \<and> \<not> is_finite y)
       then Infty Pos
     else if is_nan x \<or> is_nan y then NaN
     else Fin (sqrt_round (val x * val x + val y * val y)))"

text \<open>
  The sign field of a decimal can be assigned. The engine keeps NaN as a value without
  digits whose sign is NaN and an infinity as a value without digits with a sign: a NaN
  whose sign is assigned becomes an infinity. A value whose sign is set to NaN is NaN.
\<close>

fun s_of :: "decimal \<Rightarrow> sign option" where
  "s_of NaN = None"
| "s_of x = Some (sign_of x)"

fun set_s :: "sign option \<Rightarrow> decimal \<Rightarrow> decimal" where
  "set_s None x = NaN"
| "set_s (Some s) NaN = Infty s"
| "set_s (Some s) (Infty t) = Infty s"
| "set_s (Some s) NegZero = zero_of s"
| "set_s (Some s) (Fin q) =
     (if q = 0 then zero_of s else Fin (case s of Pos \<Rightarrow> \<bar>q\<bar> | Neg \<Rightarrow> - \<bar>q\<bar>))"

text \<open>
  An engine whose algorithms answer NaN (0 for the rational-valued ones). It stands for
  the engine in statements about concrete inputs that only reach the cases written out
  above, where the algorithms are not consulted.
\<close>

definition plain_engine :: engine where
  "plain_engine = \<lparr>e_pow = (\<lambda>x y. NaN), e_ln = (\<lambda>q. 0), e_exp = (\<lambda>x. NaN),
     e_sin = (\<lambda>x. NaN), e_cos = (\<lambda>x. NaN), e_sinh = (\<lambda>x. NaN), e_cosh = (\<lambda>x. NaN),
     e_asin = (\<lambda>q. 0), e_acos = (\<lambda>x. NaN), e_atan2 = (\<lambda>y x. NaN),
     e_toString = (\<lambda>q. ''?'')\<rparr>"

text \<open>The constants that need the engine's functions.\<close>

definition PI_OVER_TWO :: "engine \<Rightarrow> decimal" where
  "PI_OVER_TWO eng = d_acos eng ZERO"

definition E :: "engine \<Rightarrow> decimal" where
  "E eng = d_exp eng ONE"

text \<open>The constants file of the static-function class computes the same two names.\<close>

definition static_PI_OVER_TWO :: "engine \<Rightarrow> decimal" where
  "static_PI_OVER_TWO eng = d_div (d_acos eng NEG_ONE) TWO"

definition static_E :: "engine \<Rightarrow> decimal" where
  "static_E eng = d_exp eng (Fin 1)"

subsection \<open>Printing a decimal\<close>

function show_int :: "int \<Rightarrow> string" where
  "show_int n = (if n < 10 then [''0123456789'' ! nat n]
     else show_int (n div 10) @ [''0123456789'' ! nat (n mod 10)])"
  by pat_completeness auto
termination
  by (relation "measure nat") auto

declare show_int.simps [simp del]

text \<open>
  \<open>toString\<close>: both zeros print as 0; an integer below \<open>10 ^ 21\<close> prints its digits; other
  finite values (fractions, exponential notation) are printed by the engine.
\<close>

definition d_toString :: "engine \<Rightarrow> decimal \<Rightarrow> string" where
  "d_toString eng x = (if is_nan x then ''NaN''
     else if \<not> is_finite x then (if sign_of x = Neg then ''-Infinity'' else ''Infinity'')
     else if is_zero x then ''0''
     else (if sign_of x = Neg then ''-'' else '''') @
       (if isInt x \<and> \<bar>val x\<bar> < 10 ^ 21 then show_int \<lfloor>\<bar>val x\<bar>\<rfloor>
        else e_toString eng \<bar>val x\<bar>))"

section \<open>The complex value type\<close>

text \<open>
  A complex number holds two decimals. \<open>complex.js\<close> names them \<open>re\<close> and \<open>im\<close>; the
  static-function class names the same two fields \<open>real\<close> and \<open>imaginary\<close>.
\<close>

record Complex_t =
  re :: decimal
  im :: decimal

definition new_Complex :: "decimal \<Rightarrow> decimal \<Rightarrow> Complex_t" where
  "new_Complex r i = \<lparr>re = r, im = i\<rparr>"

text \<open>\<open>complex.js\<close>: \<open>eq\<close>, \<open>add\<close>, \<open>sub\<close>, \<open>mul\<close>.\<close>

definition Complex_eq :: "Complex_t \<Rightarrow> Complex_t \<Rightarrow> bool" where
  "Complex_eq this other = (d_eq (re this) (re other) \<and> d_eq (im this) (im other))"

definition Complex_add :: "Complex_t \<Rightarrow> Complex_t \<Rightarrow> Complex_t" where
  "Complex_add this other =
     new_Complex (d_plus (re this) (re other)) (d_plus (im this) (im other))"

definition Complex_sub :: "Complex_t \<Rightarrow> Complex_t \<Rightarrow> Complex_t" where
  "Complex_sub this other =
     new_Complex (d_minus (re this) (re other)) (d_minus (im this) (im other))"

definition Complex_mul :: "Complex_t \<Rightarrow> Complex_t \<Rightarrow> Complex_t" where
  "Complex_mul this other = new_Complex
     (d_minus (d_times (re this) (re other)) (d_times (im this) (im other)))
     (d_plus (d_times (re this) (im other)) (d_times (im this) (re other)))"

subsection \<open>complex.js: instance methods\<close>

definition Complex_div :: "engine \<Rightarrow> Complex_t \<Rightarrow> Complex_t \<Rightarrow> Complex_t" where
  "Complex_div eng this other =
     (let denominatorSum = d_plus (d_pow eng (re other) TWO) (d_pow eng (im other) TWO) in
      new_Complex
        (d_div (d_plus (d_times (re this) (re other)) (d_times (im this) (im other)))
           denominatorSum)
        (d_div (d_minus (d_times (im this) (re other)) (d_times (re this) (im other)))
           denominatorSum))"

definition Complex_recip :: "engine \<Rightarrow> Complex_t \<Rightarrow> Complex_t" where
  "Complex_recip eng this =
     (let denominatorSum = d_plus (d_pow eng (re this) TWO) (d_pow eng (im this) TWO) in
      new_Complex (d_div (re this) denominatorSum) (d_div (d_neg (im this)) denominatorSum))"

definition Complex_mod :: "Complex_t \<Rightarrow> decimal" where
  "Complex_mod this = d_hypot (re this) (im this)"

definition Complex_arg :: "engine \<Rightarrow> Complex_t \<Rightarrow> decimal" where
  "Complex_arg eng this = d_atan2 eng (im this) (re this)"

text \<open>
  \<open>pow\<close>: the test for an imaginary number raised to an integer power and its four
  branches; None when the test fails or no branch is taken.
\<close>

definition pow_fast :: "engine \<Rightarrow> Complex_t \<Rightarrow> Complex_t \<Rightarrow> Complex_t option" where
  "pow_fast eng this other =
     (if d_eq (re this) ZERO \<and> d_eq (im other) ZERO \<and> isInt (re other) then
        (let pow = d_pow eng (im this) (re other) in
         if d_eq (d_mod (re other) FOUR) ZERO then Some (new_Complex pow ZERO)
         else if d_eq (d_mod (d_plus (re other) ONE) FOUR) ZERO
           then Some (new_Complex ZERO (d_times NEG_ONE pow))
         else if d_eq (d_mod (re other) TWO) ZERO
           then Some (new_Complex (d_times NEG_ONE pow) ZERO)
         else if d_eq (d_mod (d_plus (re other) THREE) FOUR) ZERO
           then Some (new_Complex ZERO pow)
         else None)
      else None)"

definition pow_general :: "engine \<Rightarrow> Complex_t \<Rightarrow> Complex_t \<Rightarrow> Complex_t" where
  "pow_general eng this other =
     (let r = Complex_mod this;
          cArg = Complex_arg eng this;
          leftFactor = d_times (d_pow eng r (re other))
                         (d_pow eng (E eng) (d_neg (d_times (im other) cArg)));
          ratio = d_plus (d_times (re other) cArg)
                    (d_div (d_times (im other) (d_ln eng (d_pow eng r TWO))) TWO)
      in new_Complex (d_times (d_cos eng ratio) leftFactor)
                     (d_times (d_sin eng ratio) leftFactor))"

definition Complex_pow :: "engine \<Rightarrow> Complex_t \<Rightarrow> Complex_t \<Rightarrow> Complex_t" where
  "Complex_pow eng this other =
     (case pow_fast eng this other of Some r \<Rightarrow> r | None \<Rightarrow> pow_general eng this other)"

definition Complex_sqrt :: "engine \<Rightarrow> Complex_t \<Rightarrow> Complex_t" where
  "Complex_sqrt eng this =
     (if d_eq (im this) ZERO then
        (if d_gte (re this) ZERO then new_Complex (d_sqrt (re this)) ZERO
         else new_Complex ZERO (d_sqrt (d_abs (re this))))
      else Complex_pow eng this (new_Complex ONE_HALF ZERO))"

definition Complex_conj :: "Complex_t \<Rightarrow> Complex_t" where
  "Complex_conj this = new_Complex (re this) (d_neg (im this))"

definition Complex_ln :: "engine \<Rightarrow> Complex_t \<Rightarrow> Complex_t" where
  "Complex_ln eng this = new_Complex (d_ln eng (Complex_mod this)) (Complex_arg eng this)"

definition Complex_sin :: "engine \<Rightarrow> Complex_t \<Rightarrow> Complex_t" where
  "Complex_sin eng this = new_Complex
     (d_times (d_sin eng (re this)) (d_cosh eng (im this)))
     (d_times (d_cos eng (re this)) (d_sinh eng (im this)))"

definition Complex_cos :: "engine \<Rightarrow> Complex_t \<Rightarrow> Complex_t" where
  "Complex_cos eng this = new_Complex
     (d_times (d_cos eng (re this)) (d_cosh eng (im this)))
     (d_neg (d_times (d_sin eng (re this)) (d_sinh eng (im this))))"

definition Complex_tan :: "engine \<Rightarrow> Complex_t \<Rightarrow> Complex_t" where
  "Complex_tan eng this = Complex_div eng (Complex_sin eng this) (Complex_cos eng this)"

definition Complex_csc :: "engine \<Rightarrow> Complex_t \<Rightarrow> Complex_t" where
  "Complex_csc eng this = Complex_recip eng (Complex_sin eng this)"

definition Complex_sec :: "engine \<Rightarrow> Complex_t \<Rightarrow> Complex_t" where
  "Complex_sec eng this = Complex_recip eng (Complex_cos eng this)"

definition Complex_cot :: "engine \<Rightarrow> Complex_t \<Rightarrow> Complex_t" where
  "Complex_cot eng this = Complex_recip eng (Complex_tan eng this)"

text \<open>
  \<open>asin\<close>: the result is built first; then the sign field of its imaginary part is set
  to -1 when the test on the input holds.
\<close>

definition asin_sign_test :: "Complex_t \<Rightarrow> bool" where
  "asin_sign_test this =
     (d_lt (im this) ZERO \<or> (d_gt (re this) ZERO \<and> d_lte (im this) ZERO))"

definition Complex_asin :: "engine \<Rightarrow> Complex_t \<Rightarrow> Complex_t" where
  "Complex_asin eng this =
     (let rePositive = d_pow eng (d_plus ONE (re this)) TWO;
          reNegative = d_pow eng (d_minus ONE (re this)) TWO;
          imSquared = d_pow eng (im this) TWO;
          leftSquared = d_sqrt (d_plus rePositive imSquared);
          rightSquared = d_sqrt (d_plus reNegative imSquared);
          a = d_div (d_minus leftSquared rightSquared) TWO;
          b = d_div (d_plus leftSquared rightSquared) TWO;
          result = new_Complex (d_asin eng a)
                     (d_ln eng (d_plus b (d_sqrt (d_minus (d_pow eng b TWO) ONE))))
      in if asin_sign_test this then result\<lparr>im := set_s (Some Neg) (im result)\<rparr>
         else result)"

definition Complex_acos :: "engine \<Rightarrow> Complex_t \<Rightarrow> Complex_t" where
  "Complex_acos eng this =
     Complex_sub (new_Complex (PI_OVER_TWO eng) ZERO) (Complex_asin eng this)"

definition Complex_atan :: "engine \<Rightarrow> Complex_t \<Rightarrow> Complex_t" where
  "Complex_atan eng this =
     (let reSquared = d_pow eng (re this) TWO;
          imSquared = d_pow eng (im this) TWO
      in new_Complex
        (d_div (d_atan2 eng (d_times (re this) TWO)
                  (d_minus (d_minus ONE reSquared) imSquared)) TWO)
        (d_div (d_ln eng (d_div
                  (d_plus reSquared (d_pow eng (d_plus ONE (im this)) TWO))
                  (d_plus reSquared (d_pow eng (d_minus ONE (im this)) TWO)))) FOUR))"

definition Complex_acsc :: "engine \<Rightarrow> Complex_t \<Rightarrow> Complex_t" where
  "Complex_acsc eng this = Complex_asin eng (Complex_recip eng this)"

definition Complex_asec :: "engine \<Rightarrow> Complex_t \<Rightarrow> Complex_t" where
  "Complex_asec eng this = Complex_acos eng (Complex_recip eng this)"

definition Complex_acot :: "engine \<Rightarrow> Complex_t \<Rightarrow> Complex_t" where
  "Complex_acot eng this = Complex_atan eng (Complex_recip eng this)"

definition Complex_sinh :: "engine \<Rightarrow> Complex_t \<Rightarrow> Complex_t" where
  "Complex_sinh eng this = new_Complex
     (d_times (d_sinh eng (re this)) (d_cos eng (im this)))
     (d_times (d_cosh eng (re this)) (d_sin eng (im this)))"

definition Complex_cosh :: "engine \<Rightarrow> Complex_t \<Rightarrow> Complex_t" where
  "Complex_cosh eng this = new_Complex
     (d_times (d_cosh eng (re this)) (d_cos eng (im this)))
     (d_times (d_sinh eng (re this)) (d_sin eng (im this)))"

definition Complex_tanh :: "engine \<Rightarrow> Complex_t \<Rightarrow> Complex_t" where
  "Complex_tanh eng this = Complex_div eng (Complex_sinh eng this) (Complex_cosh eng this)"

definition Complex_csch :: "engine \<Rightarrow> Complex_t \<Rightarrow> Complex_t" where
  "Complex_csch eng this = Complex_recip eng (Complex_sinh eng this)"

definition Complex_sech :: "engine \<Rightarrow> Complex_t \<Rightarrow> Complex_t" where
  "Complex_sech eng this = Complex_recip eng (Complex_cosh eng this)"

definition Complex_coth :: "engine \<Rightarrow> Complex_t \<Rightarrow> Complex_t" where
  "Complex_coth eng this = Complex_recip eng (Complex_tanh eng this)"

text \<open>The module constants \<open>I\<close> and \<open>NEG_I\<close> of complex.js.\<close>

definition I_const :: Complex_t where "I_const = new_Complex ZERO ONE"
definition NEG_I :: Complex_t where "NEG_I = new_Complex ZERO NEG_ONE"

definition Complex_asinh :: "engine \<Rightarrow> Complex_t \<Rightarrow> Complex_t" where
  "Complex_asinh eng this =
     (let result = Complex_mul (Complex_asin eng (Complex_mul this I_const)) NEG_I;
          result1 = (if d_eq (re this) ZERO \<and> d_lt (im this) ZERO
                     then result\<lparr>re := set_s (Some Neg) (re result)\<rparr>
                     else result\<lparr>re := set_s (s_of (re this)) (re result)\<rparr>)
      in result1\<lparr>im := set_s (s_of (im this)) (im result1)\<rparr>)"

definition Complex_acosh :: "engine \<Rightarrow> Complex_t \<Rightarrow> Complex_t" where
  "Complex_acosh eng this =
     (let num = Complex_sqrt eng (Complex_sub this (new_Complex ONE ZERO));
          den = Complex_sqrt eng (Complex_sub (new_Complex ONE ZERO) this)
      in Complex_mul (Complex_div eng num den) (Complex_acos eng this))"

definition Complex_atanh :: "engine \<Rightarrow> Complex_t \<Rightarrow> Complex_t" where
  "Complex_atanh eng this = Complex_mul (Complex_atan eng (Complex_mul this I_const)) NEG_I"

definition Complex_acsch :: "engine \<Rightarrow> Complex_t \<Rightarrow> Complex_t" where
  "Complex_acsch eng this = Complex_asinh eng (Complex_recip eng this)"

definition Complex_asech :: "engine \<Rightarrow> Complex_t \<Rightarrow> Complex_t" where
  "Complex_asech eng this = Complex_acosh eng (Complex_recip eng this)"

definition Complex_acoth :: "engine \<Rightarrow> Complex_t \<Rightarrow> Complex_t" where
  "Complex_acoth eng this = Complex_atanh eng (Complex_recip eng this)"

text \<open>
  \<open>log\<close> evaluates \<open>Complex.divide(this.ln(), n.ln())\<close>. The class of complex.js has no
  static member \<open>divide\<close>, so the call raises a TypeError for every receiver and base.
\<close>

datatype error = InvalidNumericLiteral | TypeError

definition Complex_log :: "engine \<Rightarrow> Complex_t \<Rightarrow> Complex_t \<Rightarrow> error + Complex_t" where
  "Complex_log eng this n = Inl TypeError"

definition Complex_toString :: "engine \<Rightarrow> Complex_t \<Rightarrow> string" where
  "Complex_toString eng this =
     (if d_eq (im this) ZERO then d_toString eng (re this)
      else if d_eq (re this) ZERO then d_toString eng (im this) @ ''i''
      else (let str = d_toString eng (re this) in
        (if d_lt (im this) ZERO then str @ '' - '' @ d_toString eng (d_abs (im this))
         else str @ '' + '' @ d_toString eng (im this)) @ ''i''))"

section \<open>The static-function class\<close>

text \<open>
  The static functions accept a Complex or a bare real value; \<open>convertToComplex\<close> returns a
  Complex unchanged and wraps anything else with a zero imaginary part.
\<close>

datatype jsval = AComplex Complex_t | AReal decimal

fun convertToComplex :: "jsval \<Rightarrow> Complex_t" where
  "convertToComplex (AComplex v) = v"
| "convertToComplex (AReal v) = new_Complex v ZERO"

definition static_equals :: "Complex_t \<Rightarrow> Complex_t \<Rightarrow> bool" where
  "static_equals c1 c2 = (d_eq (re c1) (re c2) \<and> d_eq (im c1) (im c2))"

text \<open>The instance method \<open>equals\<close> of the static-function class coerces its argument.\<close>

definition equals_method :: "Complex_t \<Rightarrow> jsval \<Rightarrow> bool" where
  "equals_method this c0 = (let c = convertToComplex c0 in
     d_eq (re this) (re c) \<and> d_eq (im this) (im c))"

definition static_add :: "jsval \<Rightarrow> jsval \<Rightarrow> Complex_t" where
  "static_add a b = (let c1 = convertToComplex a; c2 = convertToComplex b in
     new_Complex (d_plus (re c1) (re c2)) (d_plus (im c1) (im c2)))"

definition static_subtract :: "jsval \<Rightarrow> jsval \<Rightarrow> Complex_t" where
  "static_subtract a b = (let c1 = convertToComplex a; c2 = convertToComplex b in
     new_Complex (d_minus (re c1) (re c2)) (d_minus (im c1) (im c2)))"

text \<open>The frozen constants of the static-function class.\<close>

definition Complex_i :: Complex_t where "Complex_i = new_Complex ZERO ONE"
definition Complex_neg_i :: Complex_t where "Complex_neg_i = new_Complex ZERO NEG_ONE"
definition Complex_zero :: Complex_t where "Complex_zero = new_Complex ZERO ZERO"
definition Complex_nan :: Complex_t where "Complex_nan = new_Complex NAN NAN"
definition Complex_infinity :: Complex_t where "Complex_infinity = new_Complex INFINITY INFINITY"

text \<open>
  Modelled from the spec: the static functions below call \<open>mJS.add\<close>, \<open>mJS.sqrt\<close>, \<open>ln\<close>,
  \<open>cosh\<close>, \<open>atan2\<close> and other helpers that their file does not declare. They are taken
  to be the engine's operations of the same name.
\<close>

definition static_multiply :: "jsval \<Rightarrow> jsval \<Rightarrow> Complex_t" where
  "static_multiply a b = (let c1 = convertToComplex a; c2 = convertToComplex b;
       real = d_plus (d_neg (d_times (im c1) (im c2))) (d_times (re c1) (re c2));
       imaginary = d_plus (d_times (im c1) (re c2)) (d_times (re c1) (im c2))
     in new_Complex real imaginary)"

definition static_divide :: "engine \<Rightarrow> jsval \<Rightarrow> jsval \<Rightarrow> Complex_t" where
  "static_divide eng a b = (let c1 = convertToComplex a; c2 = convertToComplex b;
       denominatorSum = d_plus (d_pow eng (re c2) TWO) (d_pow eng (im c2) TWO);
       real = d_div (d_plus (d_times (re c1) (re c2)) (d_times (im c1) (im c2)))
                denominatorSum;
       imaginary = d_div (d_minus (d_times (im c1) (re c2)) (d_times (re c1) (im c2)))
                denominatorSum
     in new_Complex real imaginary)"

definition exponent_fast :: "engine \<Rightarrow> Complex_t \<Rightarrow> Complex_t \<Rightarrow> Complex_t option" where
  "exponent_fast eng c p =
     (if d_eq (re c) ZERO \<and> d_eq (im p) ZERO \<and> isInt (re p) then
        (let pow = d_pow eng (im c) (re p) in
         if d_eq (d_mod (re p) FOUR) ZERO then Some (new_Complex pow ZERO)
         else if d_eq (d_mod (d_plus (re p) ONE) FOUR) ZERO
           then Some (new_Complex ZERO (d_times NEG_ONE pow))
         else if d_eq (d_mod (re p) TWO) ZERO
           then Some (new_Complex (d_times NEG_ONE pow) ZERO)
         else if d_eq (d_mod (d_plus (re p) THREE) FOUR) ZERO
           then Some (new_Complex ZERO pow)
         else None)
      else None)"

definition exponent_general :: "engine \<Rightarrow> Complex_t \<Rightarrow> Complex_t \<Rightarrow> Complex_t" where
  "exponent_general eng c p =
     (let r = Complex_mod c;
          cArg = Complex_arg eng c;
          leftFactor = d_times (d_pow eng r (re p))
                         (d_pow eng (static_E eng) (d_neg (d_times (im p) cArg)));
          ratio = d_plus (d_times (re p) cArg)
                    (d_div (d_times (im p) (d_ln eng (d_pow eng r TWO))) TWO);
          real = d_times (d_cos eng ratio) leftFactor;
          imaginary = d_times (d_sin eng ratio) leftFactor
      in new_Complex real imaginary)"

definition static_exponent :: "engine \<Rightarrow> jsval \<Rightarrow> jsval \<Rightarrow> Complex_t" where
  "static_exponent eng a b = (let c = convertToComplex a; p = convertToComplex b in
     case exponent_fast eng c p of Some r \<Rightarrow> r | None \<Rightarrow> exponent_general eng c p)"

definition static_sqrt :: "engine \<Rightarrow> jsval \<Rightarrow> Complex_t" where
  "static_sqrt eng a = (let c = convertToComplex a in
     if d_eq (im c) ZERO then
       (if d_gte (re c) ZERO then new_Complex (d_sqrt (re c)) ZERO
        else new_Complex ZERO (d_sqrt (d_abs (re c))))
     else static_exponent eng (AComplex c) (AReal ONE_HALF))"

definition static_ln :: "engine \<Rightarrow> jsval \<Rightarrow> Complex_t" where
  "static_ln eng a = (let c = convertToComplex a in
     new_Complex (d_ln eng (Complex_mod c)) (Complex_arg eng c))"

definition static_log :: "engine \<Rightarrow> jsval \<Rightarrow> jsval \<Rightarrow> Complex_t" where
  "static_log eng a b0 = (let c = convertToComplex a; b = convertToComplex b0 in
     static_divide eng (AComplex (static_ln eng (AComplex c)))
       (AComplex (static_ln eng (AComplex b))))"

definition static_sin :: "engine \<Rightarrow> jsval \<Rightarrow> Complex_t" where
  "static_sin eng a = (let c = convertToComplex a in new_Complex
     (d_times (d_sin eng (re c)) (d_cosh eng (im c)))
     (d_times (d_cos eng (re c)) (d_sinh eng (im c))))"

definition static_cos :: "engine \<Rightarrow> jsval \<Rightarrow> Complex_t" where
  "static_cos eng a = (let c = convertToComplex a in new_Complex
     (d_times (d_cos eng (re c)) (d_cosh eng (im c)))
     (d_neg (d_times (d_sin eng (re c)) (d_sinh eng (im c)))))"

definition static_tan :: "engine \<Rightarrow> jsval \<Rightarrow> Complex_t" where
  "static_tan eng c =
     static_divide eng (AComplex (static_sin eng c)) (AComplex (static_cos eng c))"

definition static_csc :: "engine \<Rightarrow> jsval \<Rightarrow> Complex_t" where
  "static_csc eng c = static_divide eng (AReal ONE) (AComplex (static_sin eng c))"

definition static_sec :: "engine \<Rightarrow> jsval \<Rightarrow> Complex_t" where
  "static_sec eng c = static_divide eng (AReal ONE) (AComplex (static_cos eng c))"

definition static_cot :: "engine \<Rightarrow> jsval \<Rightarrow> Complex_t" where
  "static_cot eng c = static_divide eng (AReal ONE) (AComplex (static_tan eng c))"

definition static_asin :: "engine \<Rightarrow> jsval \<Rightarrow> Complex_t" where
  "static_asin eng a0 =
     (let c = convertToComplex a0;
          realPos = d_pow eng (d_plus ONE (re c)) TWO;
          realNeg = d_pow eng (d_minus ONE (re c)) TWO;
          imSquared = d_pow eng (im c) TWO;
          leftSquared = d_sqrt (d_plus realPos imSquared);
          rightSquared = d_sqrt (d_plus realNeg imSquared);
          a = d_div (d_minus leftSquared rightSquared) TWO;
          b = d_div (d_plus leftSquared rightSquared) TWO;
          result = new_Complex (d_asin eng a)
                     (d_ln eng (d_plus b (d_sqrt (d_minus (d_pow eng b TWO) ONE))))
      in if d_lt (im c) ZERO \<or> (d_gt (re c) ZERO \<and> d_lte (im c) ZERO)
         then result\<lparr>im := set_s (Some Neg) (im result)\<rparr>
         else result)"

definition static_acos :: "engine \<Rightarrow> jsval \<Rightarrow> Complex_t" where
  "static_acos eng c =
     static_subtract (AReal (static_PI_OVER_TWO eng)) (AComplex (static_asin eng c))"

definition static_atan :: "engine \<Rightarrow> jsval \<Rightarrow> Complex_t" where
  "static_atan eng a =
     (let c = convertToComplex a;
          realSquared = d_pow eng (re c) TWO;
          imSquared = d_pow eng (im c) TWO
      in new_Complex
        (d_div (d_atan2 eng (d_times (re c) TWO)
                  (d_minus (d_minus ONE realSquared) imSquared)) TWO)
        (d_div (d_ln eng (d_div
                  (d_plus realSquared (d_pow eng (d_plus ONE (im c)) TWO))
                  (d_plus realSquared (d_pow eng (d_minus ONE (im c)) TWO)))) FOUR))"

definition static_acsc :: "engine \<Rightarrow> jsval \<Rightarrow> Complex_t" where
  "static_acsc eng c = static_asin eng (AComplex (static_divide eng (AReal ONE) c))"

definition static_asec :: "engine \<Rightarrow> jsval \<Rightarrow> Complex_t" where
  "static_asec eng c = static_acos eng (AComplex (static_divide eng (AReal ONE) c))"

definition static_acot :: "engine \<Rightarrow> jsval \<Rightarrow> Complex_t" where
  "static_acot eng c = static_atan eng (AComplex (static_divide eng (AReal ONE) c))"

definition static_sinh :: "engine \<Rightarrow> jsval \<Rightarrow> Complex_t" where
  "static_sinh eng a = (let c = convertToComplex a in new_Complex
     (d_times (d_sinh eng (re c)) (d_cos eng (im c)))
     (d_times (d_cosh eng (re c)) (d_sin eng (im c))))"

definition static_cosh :: "engine \<Rightarrow> jsval \<Rightarrow> Complex_t" where
  "static_cosh eng a = (let c = convertToComplex a in new_Complex
     (d_times (d_cosh eng (re c)) (d_cos eng (im c)))
     (d_times (d_sinh eng (re c)) (d_sin eng (im c))))"

definition static_tanh :: "engine \<Rightarrow> jsval \<Rightarrow> Complex_t" where
  "static_tanh eng c =
     static_divide eng (AComplex (static_sinh eng c)) (AComplex (static_cosh eng c))"

definition static_csch :: "engine \<Rightarrow> jsval \<Rightarrow> Complex_t" where
  "static_csch eng c = static_divide eng (AReal ONE) (AComplex (static_sinh eng c))"

definition static_sech :: "engine \<Rightarrow> jsval \<Rightarrow> Complex_t" where
  "static_sech eng c = static_divide eng (AReal ONE) (AComplex (static_cosh eng c))"

definition static_coth :: "engine \<Rightarrow> jsval \<Rightarrow> Complex_t" where
  "static_coth eng c = static_divide eng (AReal ONE) (AComplex (static_tanh eng c))"

definition static_asinh :: "engine \<Rightarrow> jsval \<Rightarrow> Complex_t" where
  "static_asinh eng a =
     (let c = convertToComplex a;
          result = static_multiply (AComplex Complex_neg_i)
                     (AComplex (static_asin eng
                        (AComplex (static_multiply (AComplex Complex_i) (AComplex c)))));
          result1 = (if d_eq (re c) ZERO \<and> d_lt (im c) ZERO
                     then result\<lparr>re := set_s (Some Neg) (re result)\<rparr>
                     else result\<lparr>re := set_s (s_of (re c)) (re result)\<rparr>)
      in result1\<lparr>im := set_s (s_of (im c)) (im result1)\<rparr>)"

definition static_acosh :: "engine \<Rightarrow> jsval \<Rightarrow> Complex_t" where
  "static_acosh eng c = static_multiply
     (AComplex (static_divide eng
        (AComplex (static_exponent eng (AComplex (static_subtract c (AReal ONE)))
                     (AReal ONE_HALF)))
        (AComplex (static_exponent eng (AComplex (static_subtract (AReal ONE) c))
                     (AReal ONE_HALF)))))
     (AComplex (static_acos eng c))"

definition static_atanh :: "engine \<Rightarrow> jsval \<Rightarrow> Complex_t" where
  "static_atanh eng c = static_multiply (AComplex Complex_neg_i)
     (AComplex (static_atan eng (AComplex (static_multiply (AComplex Complex_i) c))))"

text \<open>
  Modelled from the spec: the constructor of the static-function class passes each
  argument to the parser \<open>mJS.bignumber\<close>, which the sources do not declare; construction
  fails with \<open>InvalidNumericLiteral\<close> when an argument cannot be parsed into a value of the
  engine. The static \<open>acsch\<close> reads \<open>c.INFINITY\<close>, a property that a Complex does not
  have, and constructs with the resulting \<open>undefined\<close>.
\<close>

datatype ctor_arg = Undefined | Dec decimal

fun static_new :: "ctor_arg \<Rightarrow> ctor_arg \<Rightarrow> error + Complex_t" where
  "static_new (Dec r) (Dec i) = Inr (new_Complex r i)"
| "static_new _ _ = Inl InvalidNumericLiteral"

definition static_acsch :: "engine \<Rightarrow> jsval \<Rightarrow> error + Complex_t" where
  "static_acsch eng a = (let c = convertToComplex a in
     if d_eq (im c) ZERO then
       static_new
         (if d_eq (re c) ZERO then Undefined
          else Dec (d_ln eng (d_plus (re c)
                 (d_sqrt (d_plus (d_pow eng (re c) TWO) ONE)))))
         (Dec ZERO)
     else
       (let sum = d_plus (d_pow eng (re c) TWO) (d_pow eng (im c) TWO) in
        Inr (static_asinh eng
          (AComplex (new_Complex (d_div (re c) sum) (d_neg (d_div (im c) sum)))))))"

definition static_asech :: "engine \<Rightarrow> jsval \<Rightarrow> Complex_t" where
  "static_asech eng a = (let c = convertToComplex a; imIsZero = d_eq (im c) ZERO in
     if d_eq (re c) ZERO \<and> imIsZero then Complex_infinity
     else
       (let sum = d_plus (d_pow eng (re c) TWO) (d_pow eng (im c) TWO);
            result = static_acosh eng
              (AComplex (new_Complex (d_div (re c) sum) (d_neg (d_div (im c) sum))))
        in if d_lt (re c) ZERO \<and> imIsZero
           then result\<lparr>im := set_s (Some Pos) (im result)\<rparr>
           else result))"

definition static_acoth :: "engine \<Rightarrow> jsval \<Rightarrow> Complex_t" where
  "static_acoth eng a = (let c = convertToComplex a in
     if d_eq (re c) ZERO \<and> d_eq (im c) ZERO
     then new_Complex ZERO (static_PI_OVER_TWO eng)
     else
       (let sum = d_plus (d_pow eng (re c) TWO) (d_pow eng (im c) TWO) in
        static_atanh eng
          (AComplex (new_Complex (d_div (re c) sum) (d_neg (d_div (im c) sum))))))"

definition static_toString :: "engine \<Rightarrow> Complex_t \<Rightarrow> string" where
  "static_toString eng this =
     (if d_eq (im this) ZERO then d_toString eng (re this)
      else
        (let str = (if d_eq (im this) NEG_ONE then ''-i''
                    else if \<not> d_eq (im this) ONE then d_toString eng (im this) @ ''i''
                    else ''i'')
         in if d_gt (re this) ZERO then str @ ''+'' @ d_toString eng (re this)
            else if d_lt (re this) ZERO then str @ ''-'' @ d_toString eng (d_abs (re this))
            else str))"

text \<open>
  The quantities of the inverse sine in the words of its formula: with
  \<open>p = (1 + re)\<^sup>2 + im\<^sup>2\<close> and \<open>q = (1 - re)\<^sup>2 + im\<^sup>2\<close>, \<open>a = (sqrt p - sqrt q) / 2\<close>,
  \<open>b = (sqrt p + sqrt q) / 2\<close>, and the imaginary component before its sign is set,
  \<open>ln (b + sqrt (b\<^sup>2 - 1))\<close>.
\<close>

definition asin_a :: "engine \<Rightarrow> Complex_t \<Rightarrow> decimal" where
  "asin_a eng z = d_div (d_minus
     (d_sqrt (d_plus (d_pow eng (d_plus ONE (re z)) TWO) (d_pow eng (im z) TWO)))
     (d_sqrt (d_plus (d_pow eng (d_minus ONE (re z)) TWO) (d_pow eng (im z) TWO)))) TWO"

definition asin_b :: "engine \<Rightarrow> Complex_t \<Rightarrow> decimal" where
  "asin_b eng z = d_div (d_plus
     (d_sqrt (d_plus (d_pow eng (d_plus ONE (re z)) TWO) (d_pow eng (im z) TWO)))
     (d_sqrt (d_plus (d_pow eng (d_minus ONE (re z)) TWO) (d_pow eng (im z) TWO)))) TWO"

definition asin_im :: "engine \<Rightarrow> Complex_t \<Rightarrow> decimal" where
  "asin_im eng z = d_ln eng (d_plus (asin_b eng z)
     (d_sqrt (d_minus (d_pow eng (asin_b eng z) TWO) ONE)))"

text \<open>
  The 20-digit values of the documented example \<open>asin 2\<close>: the real part (pi/2), the
  absolute value of the imaginary part, and \<open>2 + sqrt 3\<close>, the argument of the logarithm.
\<close>

definition asin2_re :: rat where
  "asin2_re = 15707963267948966192 / 10 ^ 19"

definition asin2_im :: rat where
  "asin2_im = 13169578969248167086 / 10 ^ 19"

definition asin2_ln_arg :: rat where
  "asin2_ln_arg = 37320508075688772935 / 10 ^ 19"

text \<open>\<open>approxEquals\<close> of the static-function class: both components within \<open>1e-6\<close>.\<close>

definition static_approxEquals :: "Complex_t \<Rightarrow> Complex_t \<Rightarrow> bool" where
  "static_approxEquals c1 c2 =
     (d_lt (d_abs (d_minus (re c1) (re c2))) (Fin (1 / 10 ^ 6))
      \<and> d_lt (d_abs (d_minus (im c1) (im c2))) (Fin (1 / 10 ^ 6)))"

text \<open>A finite value is exact at the engine's precision when rounding leaves it unchanged.\<close>

definition exact :: "rat \<Rightarrow> bool" where
  "exact q = (finalise q = q)"

section \<open>Basic facts about the engine\<close>

lemma cmp_refl: "cmp x x = (if is_nan x then None else Some 0)"
  by (simp add: cmp_def)

lemma d_eq_refl: "d_eq x x = (\<not> is_nan x)"
  by (simp add: d_eq_def cmp_refl)

lemma is_finite_not_nan: "is_finite x \<Longrightarrow> \<not> is_nan x"
  by (cases x) simp_all

lemma rank_finite: "is_finite x \<Longrightarrow> rank x = (0, val x)"
  by (cases x) simp_all

lemma d_eq_finite: "is_finite x \<Longrightarrow> is_finite y \<Longrightarrow> d_eq x y = (val x = val y)"
  by (simp add: d_eq_def cmp_def rank_finite is_finite_not_nan)

lemma val_neg: "val (d_neg x) = - val x"
  by (cases x) simp_all

lemma is_finite_neg: "is_finite (d_neg x) = is_finite x"
  by (cases x) simp_all

lemma is_zero_val: "is_finite x \<Longrightarrow> is_zero x = (val x = 0)"
  by (cases x) simp_all

lemma is_zero_finite: "is_zero x \<Longrightarrow> is_finite x"
  by (cases x) simp_all

lemma finalise_0: "finalise 0 = 0"
  by (simp add: finalise_def)

lemma plus_finite:
  assumes "is_finite x" "is_finite y"
  shows "is_finite (d_plus x y) \<and> val (d_plus x y) = finalise (val x + val y)"
proof (cases "is_zero x \<and> is_zero y")
  case True
  then have "val x = 0" "val y = 0"
    using assms by (simp_all add: is_zero_val)
  then show ?thesis
    using True assms by (simp add: d_plus_def is_finite_not_nan finalise_0)
next
  case False
  then show ?thesis
    using assms by (auto simp add: d_plus_def is_finite_not_nan)
qed

lemma minus_finite:
  assumes "is_finite x" "is_finite y"
  shows "is_finite (d_minus x y) \<and> val (d_minus x y) = finalise (val x - val y)"
  using plus_finite [of x "d_neg y"] assms
  by (simp add: d_minus_def is_finite_neg val_neg)

subsection \<open>The rounding functions meet their description\<close>

text \<open>
  The integer square root is the floor of the root; the decimal exponent brackets its
  argument between two powers of ten; \<open>finalise\<close> returns a value of at most \<open>precision\<close>
  digits within half a unit of the last digit; \<open>sqrt_round\<close> returns the nearest value
  of that many digits to the root.
\<close>

lemma newton_step_upper:
  assumes "0 \<le> (n::int)" "0 < x"
  shows "n < ((x + n div x) div 2 + 1)\<^sup>2"
proof -
  define q where "q = n div x"
  define y where "y = (x + q) div 2"
  have q0: "0 \<le> q" using assms by (simp add: q_def div_int_pos_iff)
  have "n = x * q + n mod x" by (simp add: q_def)
  moreover have "n mod x < x" using assms(2) by simp
  ultimately have n: "n < x * (q + 1)" by (simp add: algebra_simps)
  have s: "x + q + 1 \<le> 2 * (y + 1)" unfolding y_def by presburger
  have "4 * (x * (q + 1)) \<le> (x + q + 1)\<^sup>2"
  proof -
    have "0 \<le> (x - (q + 1))\<^sup>2" by simp
    then show ?thesis by (simp add: power2_eq_square algebra_simps)
  qed
  also have "\<dots> \<le> (2 * (y + 1))\<^sup>2"
    using s assms(2) q0 by (intro power_mono) simp_all
  also have "\<dots> = 4 * (y + 1)\<^sup>2" by (simp add: power2_eq_square algebra_simps)
  finally have "x * (q + 1) \<le> (y + 1)\<^sup>2" by simp
  with n show ?thesis by (simp add: y_def q_def)
qed

lemma newton_correct:
  "0 \<le> n \<Longrightarrow> 0 \<le> x \<Longrightarrow> n < (x + 1)\<^sup>2 \<Longrightarrow>
     (newton n x)\<^sup>2 \<le> n \<and> n < (newton n x + 1)\<^sup>2"
proof (induction n x rule: newton.induct)
  case (1 n x)
  show ?case
  proof (cases "x \<le> 0")
    case True
    then have "x = 0" using "1.prems" by simp
    then show ?thesis using "1.prems" by (simp add: newton.simps)
  next
    case False
    define y where "y = (x + n div x) div 2"
    have x: "0 < x" using False by simp
    have up: "n < (y + 1)\<^sup>2"
      unfolding y_def using newton_step_upper [OF "1.prems"(1) x] .
    have y0: "0 \<le> y"
    proof -
      have "0 \<le> n div x" using x "1.prems"(1) by (simp add: div_int_pos_iff)
      then show ?thesis using x unfolding y_def by (simp add: div_int_pos_iff)
    qed
    show ?thesis
    proof (cases "y < x")
      case True
      have "newton n x = newton n y"
        using False True by (subst newton.simps) (simp add: y_def Let_def)
      moreover have "(newton n y)\<^sup>2 \<le> n \<and> n < (newton n y + 1)\<^sup>2"
        using "1.IH" [OF False y_def True "1.prems"(1) y0 up] .
      ultimately show ?thesis by simp
    next
      case ge: False
      have r: "newton n x = x"
        using False ge by (subst newton.simps) (simp add: y_def Let_def)
      define q where "q = n div x"
      have "\<not> (x + q) div 2 < x" using ge by (simp add: y_def q_def)
      then have "2 * x \<le> x + q" by presburger
      then have "2 * x \<le> x + n div x" by (simp add: q_def)
      then have "x \<le> n div x" by simp
      then have "x * x \<le> x * (n div x)" using x by (intro mult_left_mono) simp_all
      also have "\<dots> \<le> n"
        using x "1.prems"(1) by (metis mult.commute div_mult_self_is_m
            mult_div_mod_eq le_add_same_cancel1 pos_mod_sign)
      finally show ?thesis using r "1.prems"(3) by (simp add: power2_eq_square)
    qed
  qed
qed

lemma ndigits_upper: "n < 10 ^ ndigits n"
proof (induction n rule: ndigits.induct)
  case (1 n)
  show ?case
  proof (cases "n \<le> 0")
    case True
    then show ?thesis by (simp add: ndigits.simps)
  next
    case False
    have "n div 10 < 10 ^ ndigits (n div 10)" using 1 False by simp
    then have "n < 10 * 10 ^ ndigits (n div 10)" by linarith
    then show ?thesis using False by (subst ndigits.simps) simp
  qed
qed

lemma isqrt_correct:
  assumes "0 \<le> n"
  shows "(isqrt n)\<^sup>2 \<le> n \<and> n < (isqrt n + 1)\<^sup>2"
proof -
  define x :: int where "x = 10 ^ ((ndigits n + 1) div 2)"
  have "n < 10 ^ ndigits n" by (rule ndigits_upper)
  also have "(10::int) ^ ndigits n \<le> 10 ^ (2 * ((ndigits n + 1) div 2))"
    by (intro power_increasing) simp_all
  also have "\<dots> = x\<^sup>2" by (simp add: x_def power_mult power2_eq_square flip: power_add mult_2)
  also have "\<dots> < (x + 1)\<^sup>2"
  proof -
    have "0 < x" by (simp add: x_def)
    then show ?thesis by (simp add: power2_eq_square algebra_simps)
  qed
  finally have "n < (x + 1)\<^sup>2" .
  moreover have "0 \<le> x" by (simp add: x_def)
  ultimately show ?thesis
    using newton_correct [OF assms] by (simp add: isqrt_def x_def)
qed

lemma pow10_powi: "pow10 k = 10 powi k"
  by (simp add: pow10_def power_int_def power_one_over inverse_eq_divide)

lemma pow10_pos: "0 < pow10 k"
  by (simp add: pow10_def)

lemma pow10_add: "pow10 (a + b) = pow10 a * pow10 b"
  by (simp add: pow10_powi power_int_add)

lemma pow10_nat: "pow10 (int n) = 10 ^ n"
  by (simp add: pow10_def)

lemma pow10_pred: "pow10 (k - 1) = pow10 k / 10"
  using pow10_add [of k "- 1"] by (simp add: pow10_def)

lemma pow10_succ: "pow10 (k + 1) = pow10 k * 10"
  using pow10_add [of k 1] by (simp add: pow10_def)

lemma ndigits_pos: "0 < n \<Longrightarrow> 0 < ndigits n"
  by (subst ndigits.simps) simp

lemma ndigits_lower: "0 < n \<Longrightarrow> 10 ^ (ndigits n - 1) \<le> n"
proof (induction n rule: ndigits.induct)
  case (1 n)
  show ?case
  proof (cases "n div 10 \<le> 0")
    case True
    then have "ndigits (n div 10) = 0" by (simp add: ndigits.simps)
    then have "ndigits n = 1" using "1.prems" by (subst ndigits.simps) simp
    then show ?thesis using "1.prems" by simp
  next
    case False
    then have pos: "0 < n div 10" by simp
    have ih: "10 ^ (ndigits (n div 10) - 1) \<le> n div 10"
      using "1.IH" pos "1.prems" by simp
    have eq: "ndigits n - 1 = Suc (ndigits (n div 10) - 1)"
      using "1.prems" ndigits_pos [OF pos] by (subst ndigits.simps) simp
    have "10 * (n div 10) \<le> n" by presburger
    moreover have "(10::int) ^ (ndigits n - 1) = 10 * 10 ^ (ndigits (n div 10) - 1)"
      by (simp only: eq power_Suc)
    ultimately show ?thesis using ih by linarith
  qed
qed

lemma lead_bounds:
  "0 < q \<Longrightarrow> q < 1 \<Longrightarrow> 1 \<le> q * 10 ^ n \<Longrightarrow>
     pow10 (lead n q) \<le> q \<and> q < pow10 (lead n q + 1)"
proof (induction n arbitrary: q)
  case 0
  then show ?case by simp
next
  case (Suc n)
  show ?case
  proof (cases "1 \<le> q * 10")
    case True
    then have "lead n (q * 10) = 0" by (cases n) simp_all
    then show ?thesis using Suc.prems True by (simp add: pow10_def)
  next
    case False
    have "pow10 (lead n (q * 10)) \<le> q * 10 \<and> q * 10 < pow10 (lead n (q * 10) + 1)"
      using Suc.prems False by (intro Suc.IH) (simp_all add: mult.assoc)
    then have "pow10 (lead n (q * 10)) / 10 \<le> q" "q < pow10 (lead n (q * 10))"
      by (simp_all add: pow10_succ)
    moreover have "lead (Suc n) q = lead n (q * 10) - 1"
      using Suc.prems(2) by simp
    ultimately show ?thesis
      by (simp add: pow10_pred)
  qed
qed

lemma dexp_bounds:
  assumes "0 < q"
  shows "pow10 (dexp q) \<le> q \<and> q < pow10 (dexp q + 1)"
proof (cases "1 \<le> q")
  case True
  define m where "m = \<lfloor>q\<rfloor>"
  have m: "0 < m" using True by (simp add: m_def)
  have lo: "(10::int) ^ (ndigits m - 1) \<le> m" by (rule ndigits_lower [OF m])
  have hi: "m < 10 ^ ndigits m" by (rule ndigits_upper)
  have d: "dexp q = int (ndigits m - 1)"
    using True ndigits_pos [OF m] by (simp add: dexp_def m_def)
  have "(10::rat) ^ (ndigits m - 1) \<le> of_int m"
    using lo by (metis of_int_le_iff of_int_numeral of_int_power)
  also have "\<dots> \<le> q" by (simp add: m_def)
  finally have 1: "pow10 (dexp q) \<le> q" by (simp add: d pow10_nat)
  have "m + 1 \<le> 10 ^ ndigits m" using hi by simp
  then have "(of_int (m + 1) :: rat) \<le> 10 ^ ndigits m"
    by (metis of_int_le_iff of_int_numeral of_int_power)
  moreover have "q < of_int (m + 1)" using floor_correct [of q] by (simp add: m_def)
  ultimately have "q < 10 ^ ndigits m" by linarith
  moreover have "dexp q + 1 = int (ndigits m)"
    using ndigits_pos [OF m] by (simp add: d)
  ultimately have 2: "q < pow10 (dexp q + 1)" by (simp add: pow10_nat)
  from 1 2 show ?thesis ..
next
  case False
  obtain a b where ab: "quotient_of q = (a, b)" by (cases "quotient_of q")
  have b: "0 < b" using ab by (rule quotient_of_denom_pos)
  have q: "q = of_int a / of_int b" using ab by (rule quotient_of_div)
  have a: "1 \<le> a"
  proof -
    have "0 < (of_int a :: rat)" using assms b q by (simp add: zero_less_divide_iff)
    then show ?thesis by simp
  qed
  have "(of_int b :: rat) < 10 ^ ndigits b"
    using ndigits_upper [of b] by (metis of_int_less_iff of_int_numeral of_int_power)
  moreover have "(10::rat) ^ ndigits b \<le> of_int a * 10 ^ ndigits b"
    using a by (simp add: mult_le_cancel_right1)
  ultimately have "of_int b \<le> of_int a * (10::rat) ^ ndigits b" by linarith
  then have "1 \<le> q * 10 ^ ndigits b"
    using b by (simp add: q pos_le_divide_eq)
  then have "1 \<le> q * 10 ^ Suc (ndigits b)"
    by simp
  then show ?thesis
    using lead_bounds [of q "Suc (ndigits b)"] assms False
    by (simp add: dexp_def ab del: lead.simps power_Suc)
qed

lemma finalise_nearest:
  assumes "q \<noteq> 0"
  defines "k \<equiv> int precision - 1 - dexp \<bar>q\<bar>"
  defines "N \<equiv> \<lfloor>\<bar>q\<bar> * pow10 k + 1 / 2\<rfloor>"
  shows "finalise q = sgn q * of_int N / pow10 k"
    and "10 ^ (precision - 1) \<le> N" and "N \<le> 10 ^ precision"
    and "\<bar>of_int N - \<bar>q\<bar> * pow10 k\<bar> \<le> 1 / 2"
proof -
  define x where "x = \<bar>q\<bar> * pow10 k"
  have a: "0 < \<bar>q\<bar>" using assms(1) by simp
  have "pow10 (dexp \<bar>q\<bar>) * pow10 k \<le> x" "x < pow10 (dexp \<bar>q\<bar> + 1) * pow10 k"
    using dexp_bounds [OF a] pow10_pos [of k] by (simp_all add: x_def)
  then have "pow10 (int (precision - 1)) \<le> x" "x < pow10 (int precision)"
    by (simp_all add: k_def precision_def flip: pow10_add)
  then have lo: "10 ^ (precision - 1) \<le> x" and hi: "x < 10 ^ precision"
    by (simp_all only: pow10_nat)
  show "finalise q = sgn q * of_int N / pow10 k"
    using assms(1) by (simp add: finalise_def Let_def k_def N_def)
  have N: "of_int N \<le> x + 1 / 2" "x + 1 / 2 < of_int N + 1"
    using floor_correct [of "x + 1 / 2"] by (simp_all add: N_def x_def)
  have "(of_int (10 ^ (precision - 1)) :: rat) \<le> x + 1 / 2"
    using lo by simp
  then show "10 ^ (precision - 1) \<le> N"
    unfolding N_def x_def [symmetric] by (simp only: le_floor_iff)
  have "(of_int N :: rat) < of_int (10 ^ precision) + 1 / 2"
    using N(1) hi by simp
  then have "(of_int N :: rat) < of_int (10 ^ precision + 1)"
    by simp
  then have "N < 10 ^ precision + 1"
    by (simp only: of_int_less_iff)
  then show "N \<le> 10 ^ precision" by simp
  show "\<bar>of_int N - \<bar>q\<bar> * pow10 k\<bar> \<le> 1 / 2"
    using N unfolding x_def by linarith
qed

lemma finalise_error:
  assumes "q \<noteq> 0"
  shows "\<bar>finalise q - q\<bar> \<le> pow10 (dexp \<bar>q\<bar> + 1 - int precision) / 2"
proof -
  define k where "k = int precision - 1 - dexp \<bar>q\<bar>"
  define N where "N = \<lfloor>\<bar>q\<bar> * pow10 k + 1 / 2\<rfloor>"
  have f: "finalise q = sgn q * of_int N / pow10 k"
    and e: "\<bar>of_int N - \<bar>q\<bar> * pow10 k\<bar> \<le> 1 / 2"
    using finalise_nearest [OF assms] by (simp_all add: k_def N_def)
  have p: "0 < pow10 k" by (rule pow10_pos)
  define s where "s = sgn q"
  define a where "a = \<bar>q\<bar>"
  have qa: "q = s * a" by (simp add: s_def a_def mult_sgn_abs)
  have s1: "\<bar>s\<bar> = 1" using assms by (simp add: s_def abs_sgn_eq)
  have "s * of_int N / pow10 k - s * a = s * ((of_int N - a * pow10 k) / pow10 k)"
    using p by (simp add: field_simps)
  then have "finalise q - q = s * ((of_int N - a * pow10 k) / pow10 k)"
    using f by (simp only: qa [symmetric] s_def [symmetric])
  then have "\<bar>finalise q - q\<bar> = \<bar>of_int N - \<bar>q\<bar> * pow10 k\<bar> / pow10 k"
    using p s1 by (simp add: abs_mult a_def)
  also have "\<dots> \<le> (1 / 2) / pow10 k"
    using e p by (intro divide_right_mono) simp_all
  also have "\<dots> = pow10 (dexp \<bar>q\<bar> + 1 - int precision) / 2"
  proof -
    have "k + (dexp \<bar>q\<bar> + 1 - int precision) = 0"
      by (simp add: k_def)
    then have "pow10 (k + (dexp \<bar>q\<bar> + 1 - int precision)) = 1"
      by (simp add: pow10_def)
    then have "pow10 k * pow10 (dexp \<bar>q\<bar> + 1 - int precision) = 1"
      by (simp only: pow10_add)
    then show ?thesis using p by (simp add: field_simps)
  qed
  finally show ?thesis .
qed

lemma sqrt_round_nearest:
  assumes "0 < q"
  defines "j \<equiv> int precision - 1 - dexp q div 2"
  defines "N \<equiv> (isqrt \<lfloor>4 * q * pow10 (2 * j)\<rfloor> + 1) div 2"
  shows "sqrt_round q = of_int N / pow10 j"
    and "of_int ((2 * N - 1)\<^sup>2) \<le> 4 * q * pow10 (2 * j)"
    and "4 * q * pow10 (2 * j) < of_int ((2 * N + 1)\<^sup>2)"
proof -
  define x where "x = 4 * q * pow10 (2 * j)"
  define m where "m = \<lfloor>x\<rfloor>"
  define r where "r = isqrt m"
  show "sqrt_round q = of_int N / pow10 j"
    using assms(1) by (simp add: sqrt_round_def Let_def j_def N_def)
  have "0 \<le> dexp q + 2 * j"
  proof -
    have "2 * (dexp q div 2) \<le> dexp q" by presburger
    then show ?thesis by (simp add: j_def precision_def)
  qed
  then have "1 \<le> pow10 (dexp q + 2 * j)"
    by (simp add: pow10_def)
  also have "\<dots> \<le> q * pow10 (2 * j)"
    using dexp_bounds [OF assms(1)] pow10_pos [of "2 * j"] by (simp add: pow10_add)
  finally have x1: "1 \<le> x" by (simp add: x_def)
  then have m1: "1 \<le> m" by (simp add: m_def le_floor_iff)
  have r: "r\<^sup>2 \<le> m" "m < (r + 1)\<^sup>2"
    using isqrt_correct [of m] m1 by (simp_all add: r_def)
  have r1: "1 \<le> r"
  proof (rule ccontr)
    assume "\<not> 1 \<le> r"
    then have r0: "r \<le> 0" by simp
    have "m < r * r + 2 * r + 1"
      using r(2) by (simp add: power2_eq_square algebra_simps)
    moreover have "r * r \<le> m"
      using r(1) by (simp add: power2_eq_square)
    ultimately have "0 \<le> r" by linarith
    with r0 have "r = 0" by simp
    with r(2) m1 show False by simp
  qed
  have N: "2 * N \<le> r + 1" "r \<le> 2 * N"
    unfolding N_def x_def [symmetric] m_def [symmetric] r_def [symmetric] by presburger+
  have "(2 * N - 1)\<^sup>2 \<le> r\<^sup>2"
    using N r1 by (intro power_mono) simp_all
  then have "(2 * N - 1)\<^sup>2 \<le> m" using r(1) by simp
  then have "(of_int ((2 * N - 1)\<^sup>2) :: rat) \<le> of_int m"
    by (simp only: of_int_le_iff)
  also have "\<dots> \<le> x" by (simp add: m_def)
  finally show "of_int ((2 * N - 1)\<^sup>2) \<le> 4 * q * pow10 (2 * j)"
    by (simp only: x_def)
  have "(r + 1)\<^sup>2 \<le> (2 * N + 1)\<^sup>2"
    using N r1 by (intro power_mono) simp_all
  then have "m + 1 \<le> (2 * N + 1)\<^sup>2" using r(2) by simp
  then have "(of_int (m + 1) :: rat) \<le> of_int ((2 * N + 1)\<^sup>2)"
    by (simp only: of_int_le_iff)
  moreover have "x < of_int (m + 1)"
    using floor_correct [of x] by (simp add: m_def)
  ultimately show "4 * q * pow10 (2 * j) < of_int ((2 * N + 1)\<^sup>2)"
    unfolding x_def by linarith
qed

subsection \<open>Integers below the precision are not rounded\<close>

lemma ndigits_le: "n < 10 ^ k \<Longrightarrow> ndigits n \<le> k"
proof (induction k arbitrary: n)
  case 0
  then show ?case by (simp add: ndigits.simps)
next
  case (Suc k)
  show ?case
  proof (cases "n \<le> 0")
    case True
    then show ?thesis by (simp add: ndigits.simps)
  next
    case False
    have "n div 10 < 10 ^ k" using Suc.prems by simp
    from Suc.IH [OF this] False show ?thesis
      by (subst ndigits.simps) simp
  qed
qed

lemma finalise_int:
  assumes "\<bar>m\<bar> < 10 ^ 20"
  shows "finalise (of_int m) = of_int m"
proof (cases "m = 0")
  case True
  then show ?thesis by (simp add: finalise_def)
next
  case False
  define a where "a = \<bar>m\<bar>"
  have a: "1 \<le> a" "a < 10 ^ 20" using False assms by (simp_all add: a_def)
  have abs_eq: "\<bar>of_int m :: rat\<bar> = of_int a" by (simp add: a_def)
  have nd: "ndigits a \<le> 20" using ndigits_le [OF a(2)] .
  have de: "dexp (of_int a) = int (ndigits a) - 1"
    using a(1) by (simp add: dexp_def)
  define k where "k = 20 - ndigits a"
  have kk: "int precision - 1 - dexp (of_int a) = int k"
    using nd by (simp add: de precision_def k_def)
  have fl: "\<lfloor>(of_int a :: rat) * 10 ^ k + 1 / 2\<rfloor> = a * 10 ^ k"
  proof -
    have "(of_int a :: rat) * 10 ^ k + 1 / 2 = of_int (a * 10 ^ k) + 1 / 2" by simp
    then show ?thesis by (simp only: floor_add_int) linarith
  qed
  have "finalise (of_int m) = sgn (of_int m) * of_int (a * 10 ^ k) / 10 ^ k"
    using False by (simp add: finalise_def abs_eq kk pow10_def Let_def fl del: of_int_mult of_int_power)
  also have "\<dots> = sgn (of_int m) * of_int a" by simp
  also have "\<dots> = of_int m" using False by (cases "m < 0") (simp_all add: a_def sgn_if)
  finally show ?thesis .
qed


lemma trunc_of_int_div:
  assumes "0 < k"
  shows "trunc (of_int m / of_int k) = (if m < 0 then - ((- m) div k) else m div k)"
proof -
  have neg: "(of_int m / of_int k :: rat) < 0 \<longleftrightarrow> m < 0"
    using assms by (simp add: divide_less_0_iff)
  have "\<lfloor>- (of_int m / of_int k :: rat)\<rfloor> = (- m) div k"
    by (metis floor_divide_of_int_eq minus_divide_left of_int_minus)
  then show ?thesis
    by (simp add: trunc_def neg floor_divide_of_int_eq)
qed

lemma d_mod_int:
  assumes "0 < k" "k < 10 ^ 20"
  shows "d_eq (d_mod (Fin (of_int m)) (Fin (of_int k))) ZERO = (k dvd m)"
proof (cases "m = 0")
  case True
  then show ?thesis using assms by (simp add: d_mod_def d_eq_finite ZERO_def)
next
  case False
  define j where "j = (if m < 0 then - ((- m) mod k) else m mod k)"
  have rem: "(of_int m :: rat) - of_int (trunc (of_int m / of_int k)) * of_int k = of_int j"
  proof -
    have "m - (if m < 0 then - ((- m) div k) else m div k) * k = j"
      by (simp add: j_def minus_mod_eq_mult_div [symmetric] algebra_simps)
    then show ?thesis
      unfolding trunc_of_int_div [OF assms(1)]
      by (metis of_int_diff of_int_mult)
  qed
  have jb: "\<bar>j\<bar> < 10 ^ 20"
  proof -
    have "\<bar>j\<bar> < k" using assms(1) by (simp add: j_def abs_mod_less)
    then show ?thesis using assms(2) by linarith
  qed
  have jz: "j = 0 \<longleftrightarrow> k dvd m"
    by (simp add: j_def flip: dvd_eq_mod_eq_0)
  have "d_mod (Fin (of_int m)) (Fin (of_int k)) = Fin (of_int j)"
    using False assms(1) by (simp add: d_mod_def rem finalise_int [OF jb])
  then show ?thesis
    by (simp add: d_eq_finite ZERO_def jz)
qed

lemma d_plus_int:
  assumes "k \<noteq> 0" "\<bar>m + k\<bar> < 10 ^ 20"
  shows "d_plus (Fin (of_int m)) (Fin (of_int k)) = Fin (of_int (m + k))"
  using assms finalise_int [OF assms(2)] by (simp add: d_plus_def)


lemma isInt_of_int: "isInt (Fin (of_int n))"
  by (simp add: isInt_def)

lemma pow_fast_table:
  assumes "d_eq (re this) ZERO" "d_eq (im other) ZERO"
    and "re other = Fin (of_int n)" "\<bar>n\<bar> < 10 ^ 19"
  shows "pow_fast eng this other = Some
     (let pow = d_pow eng (im this) (re other) in
      if n mod 4 = 0 then new_Complex pow ZERO
      else if n mod 4 = 1 then new_Complex ZERO pow
      else if n mod 4 = 2 then new_Complex (d_times NEG_ONE pow) ZERO
      else new_Complex ZERO (d_times NEG_ONE pow))"
proof -
  have b1: "\<bar>n + 1\<bar> < 10 ^ 20" and b3: "\<bar>n + 3\<bar> < 10 ^ 20"
    using assms(4) by simp_all
  have t1: "d_eq (d_mod (re other) FOUR) ZERO = (4 dvd n)"
    using d_mod_int [of 4 n] by (simp add: assms(3) FOUR_def)
  have t2: "d_eq (d_mod (d_plus (re other) ONE) FOUR) ZERO = (4 dvd (n + 1))"
    using d_mod_int [of 4 "n + 1"] d_plus_int [of 1 n] b1
    by (simp add: assms(3) FOUR_def ONE_def)
  have t3: "d_eq (d_mod (re other) TWO) ZERO = (2 dvd n)"
    using d_mod_int [of 2 n] by (simp add: assms(3) TWO_def)
  have t4: "d_eq (d_mod (d_plus (re other) THREE) FOUR) ZERO = (4 dvd (n + 3))"
    using d_mod_int [of 4 "n + 3"] d_plus_int [of 3 n] b3
    by (simp add: assms(3) FOUR_def THREE_def)
  have int: "isInt (re other)"
    by (simp add: assms(3) isInt_of_int)
  have "n mod 4 = 0 \<or> n mod 4 = 1 \<or> n mod 4 = 2 \<or> n mod 4 = 3"
    by presburger
  then consider "n mod 4 = 0" | "n mod 4 = 1" | "n mod 4 = 2" | "n mod 4 = 3"
    by blast
  then show ?thesis
  proof cases
    case 1
    then have "4 dvd n" by presburger
    then show ?thesis
      using 1 by (simp add: pow_fast_def assms(1,2) int t1 Let_def)
  next
    case 2
    then have "\<not> 4 dvd n" "\<not> 4 dvd (n + 1)" "\<not> 2 dvd n" "4 dvd (n + 3)"
      by presburger+
    then show ?thesis
      using 2 by (simp add: pow_fast_def assms(1,2) int t1 t2 t3 t4 Let_def)
  next
    case 3
    then have "\<not> 4 dvd n" "\<not> 4 dvd (n + 1)" "2 dvd n"
      by presburger+
    then show ?thesis
      using 3 by (simp add: pow_fast_def assms(1,2) int t1 t2 t3 Let_def)
  next
    case 4
    then have "\<not> 4 dvd n" "4 dvd (n + 1)"
      by presburger+
    then show ?thesis
      using 4 by (simp add: pow_fast_def assms(1,2) int t1 t2 Let_def)
  qed
qed

lemma exponent_fast_eq: "exponent_fast eng c p = pow_fast eng c p"
  by (simp add: exponent_fast_def pow_fast_def)

section \<open>The documented examples\<close>

text \<open>
  The README's arithmetic examples, with \<open>a = 4 + 7i\<close> and \<open>b = -1 + 5i\<close>: \<open>a.add(b)\<close> is
  \<open>3 + 12i\<close>, \<open>b.div(a)\<close> is \<open>0.47692307692307692308 + 0.41538461538461538462i\<close> and
  \<open>a.recip()\<close> is \<open>0.061538461538461538462 - 0.10769230769230769231i\<close>.
\<close>

lemma readme_add:
  "Complex_add (new_Complex (Fin 4) (Fin 7)) (new_Complex (Fin (- 1)) (Fin 5))
     = new_Complex (Fin 3) (Fin 12)"
  by code_simp

lemma readme_div:
  "Complex_div plain_engine (new_Complex (Fin (- 1)) (Fin 5)) (new_Complex (Fin 4) (Fin 7))
     = new_Complex (Fin (47692307692307692308 / 10 ^ 20))
         (Fin (41538461538461538462 / 10 ^ 20))"
  by code_simp

lemma readme_recip:
  "Complex_recip plain_engine (new_Complex (Fin 4) (Fin 7))
     = new_Complex (Fin (61538461538461538462 / 10 ^ 21))
         (Fin (- (10769230769230769231 / 10 ^ 20)))"
  by code_simp

section \<open>Equality\<close>

text \<open>
  C10. Equality is not reflexive in the presence of NaN: for every Complex \<open>z\<close>, \<open>eq z z\<close>
  (and \<open>equals\<close> of the static-function class, as a static function and as a method) is
  true if and only if neither component of \<open>z\<close> is NaN; the componentwise-NaN constant
  is not equal to itself.
\<close>

theorem C10_eq_reflexive_iff_no_nan:
  "Complex_eq z z = (\<not> is_nan (re z) \<and> \<not> is_nan (im z))
   \<and> static_equals z z = (\<not> is_nan (re z) \<and> \<not> is_nan (im z))
   \<and> equals_method z (AComplex z) = (\<not> is_nan (re z) \<and> \<not> is_nan (im z))
   \<and> \<not> Complex_eq Complex_nan Complex_nan
   \<and> \<not> static_equals Complex_nan Complex_nan"
  by (simp add: Complex_eq_def static_equals_def equals_method_def d_eq_refl
      Complex_nan_def new_Complex_def NAN_def)

section \<open>Addition followed by subtraction\<close>

text \<open>
  C6 as stated fails: the sum is rounded to the engine's precision, so adding
  \<open>10 ^ 20\<close> to 1 and subtracting it again gives 0, not 1.
\<close>

theorem C6_add_sub_counterexample:
  "\<not> Complex_eq (Complex_sub (Complex_add (new_Complex (Fin 1) (Fin 0))
         (new_Complex (Fin (10 ^ 20)) (Fin 0))) (new_Complex (Fin (10 ^ 20)) (Fin 0)))
       (new_Complex (Fin 1) (Fin 0))"
  by code_simp

text \<open>
  C6, amended. For all Complex values \<open>a\<close> and \<open>b\<close> with finite components, when the
  components of \<open>a\<close> and of the exact sum \<open>a + b\<close> are exact at the engine's precision
  (rounding leaves them unchanged), \<open>sub (add a b) b\<close> equals \<open>a\<close> componentwise; the same
  holds for the static functions \<open>add\<close> and \<open>subtract\<close>.
\<close>

theorem C6_add_sub_exact:
  assumes "is_finite (re a)" "is_finite (im a)" "is_finite (re b)" "is_finite (im b)"
    and "exact (val (re a))" "exact (val (im a))"
    and "exact (val (re a) + val (re b))" "exact (val (im a) + val (im b))"
  shows "Complex_eq (Complex_sub (Complex_add a b) b) a
    \<and> static_equals (static_subtract (AComplex (static_add (AComplex a) (AComplex b)))
         (AComplex b)) a"
proof -
  have key: "d_eq (d_minus (d_plus x y) y) x"
    if "is_finite x" "is_finite y" "exact (val x)" "exact (val x + val y)" for x y
  proof -
    have s: "is_finite (d_plus x y)" "val (d_plus x y) = val x + val y"
      using plus_finite [OF that(1,2)] that(4) by (simp_all add: exact_def)
    have "is_finite (d_minus (d_plus x y) y)"
      and "val (d_minus (d_plus x y) y) = val x"
      using minus_finite [OF s(1) that(2)] s(2) that(3) by (simp_all add: exact_def)
    then show ?thesis
      using that(1) by (simp add: d_eq_finite)
  qed
  show ?thesis
    using key [OF assms(1,3,5,7)] key [OF assms(2,4,6,8)]
    by (simp add: Complex_eq_def Complex_sub_def Complex_add_def new_Complex_def
        static_equals_def static_subtract_def static_add_def)
qed

theorem C6_add_sub_exact_witness:
  "Complex_eq (Complex_sub (Complex_add (new_Complex (Fin 4) (Fin 7))
       (new_Complex (Fin (- 1)) (Fin 5))) (new_Complex (Fin (- 1)) (Fin 5)))
     (new_Complex (Fin 4) (Fin 7))"
proof -
  have e: "exact 4" "exact 7" "exact (4 + (- 1))" "exact (7 + 5)"
    by (code_simp)+
  show ?thesis
    using C6_add_sub_exact [of "new_Complex (Fin 4) (Fin 7)" "new_Complex (Fin (- 1)) (Fin 5)"] e
    by (simp add: new_Complex_def)
qed

section \<open>Powers of an imaginary number\<close>

lemma d_pow_one: "d_pow eng (Fin 1) (Fin q) = Fin 1"
  by (simp add: d_pow_def)

lemma neg_one_times_one: "d_times NEG_ONE (Fin 1) = Fin (- 1)"
  using finalise_int [of "- 1"] by (simp add: d_times_def NEG_ONE_def)

lemma Complex_pow_fast:
  "pow_fast eng this other = Some r \<Longrightarrow> Complex_pow eng this other = r"
  by (simp add: Complex_pow_def)

lemma static_exponent_fast:
  "pow_fast eng c p = Some r \<Longrightarrow> static_exponent eng (AComplex c) (AComplex p) = r"
  by (simp add: static_exponent_def exponent_fast_eq)

text \<open>
  For an exponent below \<open>10 ^ 19\<close> in absolute value, \<open>pow\<close> of the unit \<open>i\<close> walks the
  4-cycle \<open>(1,0), (0,1), (-1,0), (0,-1)\<close>.
\<close>

lemma pow_i_small:
  assumes "\<bar>n\<bar> < 10 ^ 19"
  shows "Complex_pow eng I_const (new_Complex (Fin (of_int n)) ZERO) =
     (if n mod 4 = 0 then new_Complex (Fin 1) ZERO
      else if n mod 4 = 1 then new_Complex ZERO (Fin 1)
      else if n mod 4 = 2 then new_Complex (Fin (- 1)) ZERO
      else new_Complex ZERO (Fin (- 1)))"
proof -
  have "pow_fast eng I_const (new_Complex (Fin (of_int n)) ZERO) = Some
     (let pow = d_pow eng (im I_const) (re (new_Complex (Fin (of_int n)) ZERO)) in
      if n mod 4 = 0 then new_Complex pow ZERO
      else if n mod 4 = 1 then new_Complex ZERO pow
      else if n mod 4 = 2 then new_Complex (d_times NEG_ONE pow) ZERO
      else new_Complex ZERO (d_times NEG_ONE pow))"
    by (rule pow_fast_table [OF _ _ _ assms])
      (simp_all add: I_const_def new_Complex_def d_eq_refl ZERO_def)
  from Complex_pow_fast [OF this] show ?thesis
    by (simp add: I_const_def new_Complex_def ONE_def d_pow_one neg_one_times_one)
qed

text \<open>
  C1 as stated fails: the exponent 1 has residue 1, and the code returns
  \<open>(0, magnitude)\<close>, not \<open>(0, -magnitude)\<close>: \<open>(2i) ^ 1\<close> is \<open>2i\<close>.
\<close>

theorem C1_pow_fast_path_counterexample:
  "Complex_pow plain_engine (new_Complex ZERO TWO) (new_Complex ONE ZERO)
     = new_Complex ZERO TWO
   \<and> Complex_pow plain_engine (new_Complex ZERO TWO) (new_Complex ONE ZERO)
     \<noteq> new_Complex ZERO (d_times NEG_ONE (d_pow plain_engine TWO ONE))"
  by code_simp

text \<open>
  C1, amended. For \<open>pow base exponent\<close> (and the static \<open>exponent\<close>), whenever
  \<open>base.re\<close> equals 0, \<open>exponent.im\<close> equals 0 and \<open>exponent.re\<close> is an integer \<open>n\<close> below
  \<open>10 ^ 19\<close> in absolute value, the fast path computes
  \<open>magnitude = base.im ^ exponent.re\<close> and returns, by the residue of \<open>n\<close> modulo 4:
  residue 0, \<open>(magnitude, 0)\<close>; residue 1, \<open>(0, magnitude)\<close>; residue 2,
  \<open>(-magnitude, 0)\<close>; residue 3, \<open>(0, -magnitude)\<close>, where \<open>-magnitude\<close> is the product of
  -1 and the magnitude.
\<close>

theorem C1_pow_fast_path:
  assumes "d_eq (re base) ZERO" "d_eq (im exponent) ZERO"
    and "re exponent = Fin (of_int n)" "\<bar>n\<bar> < 10 ^ 19"
  shows "Complex_pow eng base exponent =
     (let magnitude = d_pow eng (im base) (re exponent) in
      if n mod 4 = 0 then new_Complex magnitude ZERO
      else if n mod 4 = 1 then new_Complex ZERO magnitude
      else if n mod 4 = 2 then new_Complex (d_times NEG_ONE magnitude) ZERO
      else new_Complex ZERO (d_times NEG_ONE magnitude))
   \<and> static_exponent eng (AComplex base) (AComplex exponent) =
     Complex_pow eng base exponent"
  using pow_fast_table [OF assms, of eng]
  by (simp add: Complex_pow_fast static_exponent_fast)

theorem C1_pow_fast_path_witness:
  "Complex_pow plain_engine (new_Complex ZERO ONE) (new_Complex (Fin 3) ZERO)
     = new_Complex ZERO (Fin (- 1))"
  using C1_pow_fast_path [of "new_Complex ZERO ONE" "new_Complex (Fin 3) ZERO" 3 plain_engine]
  by (simp add: new_Complex_def d_eq_refl ZERO_def ONE_def d_pow_one neg_one_times_one)

text \<open>
  C2 fails for large exponents. The branch tests add 1 and 3 to the exponent, and the
  engine rounds every sum to its precision: for \<open>n = 10 ^ 25 + 1\<close>, whose residue modulo
  4 is 1, the sum \<open>n + 1\<close> is rounded to \<open>10 ^ 25\<close>, a multiple of 4, and \<open>pow i n\<close> returns
  \<open>(0, -1)\<close> where the 4-cycle has \<open>(0, 1)\<close>.
\<close>

theorem C2_pow_i_large_exponent:
  "Complex_pow plain_engine I_const (new_Complex (Fin (10 ^ 25 + 1)) ZERO)
     = new_Complex ZERO (Fin (- 1))
   \<and> (10 ^ 25 + 1 :: int) mod 4 = 1
   \<and> static_exponent plain_engine (AComplex Complex_i)
       (AComplex (new_Complex (Fin (10 ^ 25 + 1)) ZERO)) = new_Complex ZERO (Fin (- 1))"
  by code_simp

section \<open>Square root\<close>

lemma d_lt_not_gte: "d_lt x y \<Longrightarrow> \<not> d_gte x y"
  by (simp add: d_lt_def d_gte_def)

lemma sqrt_round_4: "sqrt_round 4 = 2"
  by code_simp

lemma sqrt_round_1: "sqrt_round 1 = 1"
  by code_simp

text \<open>
  C9. \<open>sqrt z\<close> for \<open>z\<close> with \<open>z.im\<close> equal to 0 returns \<open>(sqrt z.re, 0)\<close> when \<open>z.re \<ge> 0\<close>
  and \<open>(0, sqrt |z.re|)\<close> when \<open>z.re < 0\<close>, and delegates to \<open>pow z 0.5\<close> otherwise; in
  particular \<open>sqrt (-1)\<close> is exactly \<open>(0, 1)\<close> and \<open>sqrt 4\<close> is exactly \<open>(2, 0)\<close>. The
  static \<open>sqrt\<close> does the same.
\<close>

theorem C9_sqrt:
  "(d_eq (im z) ZERO \<and> d_gte (re z) ZERO \<longrightarrow>
      Complex_sqrt eng z = new_Complex (d_sqrt (re z)) ZERO
      \<and> static_sqrt eng (AComplex z) = new_Complex (d_sqrt (re z)) ZERO)
   \<and> (d_eq (im z) ZERO \<and> d_lt (re z) ZERO \<longrightarrow>
      Complex_sqrt eng z = new_Complex ZERO (d_sqrt (d_abs (re z)))
      \<and> static_sqrt eng (AComplex z) = new_Complex ZERO (d_sqrt (d_abs (re z))))
   \<and> (\<not> d_eq (im z) ZERO \<longrightarrow>
      Complex_sqrt eng z = Complex_pow eng z (new_Complex ONE_HALF ZERO)
      \<and> static_sqrt eng (AComplex z) = static_exponent eng (AComplex z) (AReal ONE_HALF))
   \<and> Complex_sqrt eng (new_Complex (Fin (- 1)) ZERO) = new_Complex ZERO (Fin 1)
   \<and> Complex_sqrt eng (new_Complex (Fin 4) ZERO) = new_Complex (Fin 2) ZERO
   \<and> static_sqrt eng (AReal (Fin (- 1))) = new_Complex ZERO (Fin 1)
   \<and> static_sqrt eng (AReal (Fin 4)) = new_Complex (Fin 2) ZERO"
proof -
  have ex: "d_sqrt (Fin 4) = Fin 2" "d_sqrt (Fin 1) = Fin 1"
    by (simp_all add: d_sqrt_def sqrt_round_4 sqrt_round_1)
  have cmp: "d_eq ZERO ZERO" "d_gte (Fin 4) ZERO" "\<not> d_gte (Fin (- 1)) ZERO"
    by (simp_all add: d_eq_def d_gte_def cmp_def ZERO_def)
  show ?thesis
    using ex cmp
    by (simp add: Complex_sqrt_def static_sqrt_def d_lt_not_gte new_Complex_def Let_def)
qed

theorem C9_sqrt_witness:
  "Complex_sqrt plain_engine (new_Complex (Fin 9) ZERO) = new_Complex (Fin 3) ZERO
   \<and> Complex_sqrt plain_engine (new_Complex (Fin (- 9)) ZERO) = new_Complex ZERO (Fin 3)
   \<and> Complex_sqrt plain_engine (new_Complex (Fin 0) (Fin 1))
       = Complex_pow plain_engine (new_Complex (Fin 0) (Fin 1)) (new_Complex ONE_HALF ZERO)"
proof -
  have c: "d_eq (im (new_Complex (Fin 9) ZERO)) ZERO \<and> d_gte (re (new_Complex (Fin 9) ZERO)) ZERO"
    "d_eq (im (new_Complex (Fin (- 9)) ZERO)) ZERO \<and> d_lt (re (new_Complex (Fin (- 9)) ZERO)) ZERO"
    "\<not> d_eq (im (new_Complex (Fin 0) (Fin 1))) ZERO"
    by (simp_all add: new_Complex_def d_eq_def d_gte_def d_lt_def cmp_def ZERO_def)
  have v: "d_sqrt (re (new_Complex (Fin 9) ZERO)) = Fin 3"
    "d_sqrt (d_abs (re (new_Complex (Fin (- 9)) ZERO))) = Fin 3"
    by code_simp+
  show ?thesis
    using C9_sqrt [of "new_Complex (Fin 9) ZERO" plain_engine]
      C9_sqrt [of "new_Complex (Fin (- 9)) ZERO" plain_engine]
      C9_sqrt [of "new_Complex (Fin 0) (Fin 1)" plain_engine] c v
    by simp
qed

section \<open>Printing\<close>

text \<open>
  C3 as stated fails in both classes. The instance method of complex.js has no special
  form for a coefficient of 1 or -1: \<open>(0, 1)\<close> prints as \<open>1i\<close>. The method of the
  static-function class prints the imaginary term first: \<open>(3, -4)\<close> prints as \<open>-4i+3\<close>.
\<close>

theorem C3_toString_counterexample:
  "Complex_toString plain_engine (new_Complex (Fin 0) (Fin 1)) = ''1i''
   \<and> Complex_toString plain_engine (new_Complex (Fin 0) (Fin 1)) \<noteq> ''i''
   \<and> static_toString plain_engine (new_Complex (Fin 3) (Fin (- 4))) = ''-4i+3''
   \<and> static_toString plain_engine (new_Complex (Fin 3) (Fin (- 4))) \<noteq> ''3 - 4i''"
  by code_simp

text \<open>
  C3, amended. For every Complex \<open>z\<close>, \<open>toString\<close> renders \<open>z\<close> with an imaginary part
  equal to 0 as the real component alone, in both classes. Otherwise the instance method
  of complex.js renders \<open><im>i\<close> when the real part equals 0, and else \<open><re> - |<im>|i\<close>
  for a negative and \<open><re> + <im>i\<close> for any other imaginary part, the coefficient always
  as a numeral; the method of the static-function class renders the imaginary term first,
  as \<open>-i\<close>, \<open>i\<close> or \<open><im>i\<close>, followed by \<open>+<re>\<close> for a positive and \<open>-|<re>|\<close> for a
  negative real part. In particular \<open>(0, 0)\<close> is \<open>0\<close> in both; \<open>(3, -4)\<close> is \<open>3 - 4i\<close> and
  \<open>(0, 1)\<close> is \<open>1i\<close> in complex.js; \<open>(0, 1)\<close> is \<open>i\<close> and \<open>(0, -1)\<close> is \<open>-i\<close> in the
  static-function class.
\<close>

theorem C3_toString:
  "Complex_toString eng z =
     (if d_eq (im z) ZERO then d_toString eng (re z)
      else if d_eq (re z) ZERO then d_toString eng (im z) @ ''i''
      else if d_lt (im z) ZERO
        then d_toString eng (re z) @ '' - '' @ d_toString eng (d_abs (im z)) @ ''i''
      else d_toString eng (re z) @ '' + '' @ d_toString eng (im z) @ ''i'')
   \<and> static_toString eng z =
     (if d_eq (im z) ZERO then d_toString eng (re z)
      else (if d_eq (im z) NEG_ONE then ''-i''
            else if d_eq (im z) ONE then ''i''
            else d_toString eng (im z) @ ''i'')
         @ (if d_gt (re z) ZERO then ''+'' @ d_toString eng (re z)
            else if d_lt (re z) ZERO then ''-'' @ d_toString eng (d_abs (re z))
            else []))
   \<and> Complex_toString eng (new_Complex (Fin 0) (Fin 0)) = ''0''
   \<and> static_toString eng (new_Complex (Fin 0) (Fin 0)) = ''0''
   \<and> Complex_toString eng (new_Complex (Fin 3) (Fin (- 4))) = ''3 - 4i''
   \<and> Complex_toString eng (new_Complex (Fin 0) (Fin 1)) = ''1i''
   \<and> static_toString eng (new_Complex (Fin 0) (Fin 1)) = ''i''
   \<and> static_toString eng (new_Complex (Fin 0) (Fin (- 1))) = ''-i''"
proof -
  have s: "show_int 3 = ''3''" "show_int 4 = ''4''" "show_int 1 = ''1''"
    by (simp_all add: show_int.simps)
  have d: "d_toString eng (Fin 0) = ''0''" "d_toString eng (Fin 3) = ''3''"
    "d_toString eng (Fin 4) = ''4''" "d_toString eng (Fin 1) = ''1''"
    by (simp_all add: d_toString_def isInt_def s)
  have c: "d_eq (Fin 0) ZERO" "\<not> d_eq (Fin (- 4)) ZERO" "\<not> d_eq (Fin 3) ZERO"
    "d_lt (Fin (- 4)) ZERO" "\<not> d_eq (Fin 1) ZERO" "\<not> d_eq (Fin 1) NEG_ONE"
    "d_eq (Fin 1) ONE" "\<not> d_eq (Fin (- 1)) ZERO" "d_eq (Fin (- 1)) NEG_ONE"
    "\<not> d_gt (Fin 0) ZERO" "\<not> d_lt (Fin 0) ZERO"
    by (simp_all add: d_eq_def d_lt_def d_gt_def cmp_def ZERO_def ONE_def NEG_ONE_def)
  show ?thesis
    using c d
    by (simp add: Complex_toString_def static_toString_def new_Complex_def Let_def)
qed

section \<open>Division by zero and raised errors\<close>

lemma d_pow_zero_two: "is_zero x \<Longrightarrow> d_pow eng x TWO = Fin 0"
  by (cases x) (simp_all add: d_pow_def TWO_def small_int_def isInt_def)

lemma zero_or_nan_times: "is_zero y \<Longrightarrow> is_nan (d_times x y) \<or> is_zero (d_times x y)"
  by (cases x; cases y; cases "sign_of x"; cases "sign_of y") (simp_all add: d_times_def)

lemma zero_or_nan_plus:
  "is_nan x \<or> is_zero x \<Longrightarrow> is_nan y \<or> is_zero y \<Longrightarrow>
     is_nan (d_plus x y) \<or> is_zero (d_plus x y)"
  by (cases x; cases y) (auto simp add: d_plus_def)

lemma zero_or_nan_neg: "is_nan x \<or> is_zero x \<Longrightarrow> is_nan (d_neg x) \<or> is_zero (d_neg x)"
  by (cases x) auto

lemma zero_or_nan_div: "is_nan x \<or> is_zero x \<Longrightarrow> d_div x (Fin 0) = NaN"
  by (cases x) (auto simp add: d_div_def)

text \<open>
  Division by a zero complex number (whatever the signs of its zeros) returns NaN in
  both components, for every dividend.
\<close>

lemma div_by_zero:
  assumes "is_zero (re b)" "is_zero (im b)"
  shows "Complex_div eng a b = new_Complex NaN NaN"
    and "static_divide eng (AComplex a) (AComplex b) = new_Complex NaN NaN"
proof -
  have den: "d_plus (d_pow eng (re b) TWO) (d_pow eng (im b) TWO) = Fin 0"
    using assms by (simp add: d_pow_zero_two d_plus_def)
  have n1: "d_div (d_plus (d_times (re a) (re b)) (d_times (im a) (im b))) (Fin 0) = NaN"
    by (intro zero_or_nan_div zero_or_nan_plus zero_or_nan_times assms)
  have n2: "d_div (d_minus (d_times (im a) (re b)) (d_times (re a) (im b))) (Fin 0) = NaN"
    unfolding d_minus_def
    by (intro zero_or_nan_div zero_or_nan_plus zero_or_nan_neg zero_or_nan_times assms)
  show "Complex_div eng a b = new_Complex NaN NaN"
    by (simp add: Complex_div_def den n1 n2)
  show "static_divide eng (AComplex a) (AComplex b) = new_Complex NaN NaN"
    by (simp add: static_divide_def den n1 n2)
qed

text \<open>
  C8: division by the zero complex number returns a value, with NaN components. But an
  operation other than construction does raise: \<open>log\<close> of complex.js raises a TypeError
  for every receiver and base, here for \<open>log\<close> of 100 in base 10.
\<close>

theorem C8_log_raises:
  "Complex_log plain_engine (new_Complex (Fin 100) ZERO) (new_Complex TEN ZERO)
     = Inl TypeError
   \<and> Complex_div plain_engine (new_Complex (Fin 1) (Fin 1)) (new_Complex ZERO ZERO)
     = new_Complex NaN NaN"
  by (simp add: Complex_log_def div_by_zero ZERO_def new_Complex_def)

section \<open>Special values of the inverse reciprocal hyperbolic functions\<close>

lemma nan_plus: "d_plus NaN y = NaN" "d_plus x NaN = NaN"
  by (simp_all add: d_plus_def)

lemma nan_minus: "d_minus NaN y = NaN" "d_minus x NaN = NaN"
  by (simp_all add: d_minus_def nan_plus)

lemma nan_times: "d_times NaN y = NaN" "d_times x NaN = NaN"
  by (simp_all add: d_times_def)

lemma nan_div: "d_div NaN y = NaN" "d_div x NaN = NaN"
  by (simp_all add: d_div_def)

lemma nan_pow: "d_pow eng NaN TWO = NaN" "d_pow eng NaN ONE_HALF = NaN"
  by (simp_all add: d_pow_def TWO_def ONE_HALF_def pow10_def)

lemma nan_cmp: "\<not> d_eq NaN y" "\<not> d_lt NaN y" "\<not> d_gt NaN y" "\<not> d_lte NaN y" "\<not> d_gte NaN y"
  by (simp_all add: d_eq_def d_lt_def d_gt_def d_lte_def d_gte_def cmp_def)

lemma nan_fun: "d_sqrt NaN = NaN" "d_ln eng NaN = NaN" "d_asin eng NaN = NaN"
  "d_atan2 eng NaN y = NaN" "d_hypot NaN NaN = NaN"
  by (simp_all add: d_sqrt_def d_ln_def d_asin_def d_atan2_def d_hypot_def)

lemmas nan_simps = nan_plus nan_minus nan_times nan_div nan_pow nan_cmp nan_fun

lemma recip_zero: "Complex_recip eng Complex_zero = new_Complex NaN NaN"
  by (simp add: Complex_recip_def Complex_zero_def new_Complex_def ZERO_def d_pow_zero_two
      d_plus_def d_div_def)

lemma mul_nan: "Complex_mul (new_Complex NaN NaN) x = new_Complex NaN NaN"
  by (simp add: Complex_mul_def new_Complex_def nan_simps)

lemma asin_nan: "Complex_asin eng (new_Complex NaN NaN) = new_Complex NaN NaN"
  by (simp add: Complex_asin_def asin_sign_test_def new_Complex_def nan_simps Let_def)

lemma atan_nan: "Complex_atan eng (new_Complex NaN NaN) = new_Complex NaN NaN"
  by (simp add: Complex_atan_def new_Complex_def nan_simps Let_def)

lemma sqrt_nan: "Complex_sqrt eng (new_Complex NaN NaN) = new_Complex NaN NaN"
  by (simp add: Complex_sqrt_def Complex_pow_def pow_fast_def pow_general_def
    Complex_mod_def Complex_arg_def new_Complex_def nan_simps Let_def)

lemma acosh_nan: "Complex_acosh eng (new_Complex NaN NaN) = new_Complex NaN NaN"
proof -
  have s: "Complex_sub (new_Complex NaN NaN) x = new_Complex NaN NaN"
    "Complex_sub x (new_Complex NaN NaN) = new_Complex NaN NaN" for x
    by (simp_all add: Complex_sub_def new_Complex_def nan_simps)
  have d: "Complex_div eng (new_Complex NaN NaN) x = new_Complex NaN NaN" for x
    by (simp add: Complex_div_def new_Complex_def nan_simps Let_def)
  show ?thesis
    by (simp add: Complex_acosh_def s sqrt_nan d mul_nan Let_def)
qed

text \<open>
  The instance methods of complex.js have no special cases: at the origin the reciprocal
  is \<open>(NaN, NaN)\<close>, and so is the result of all three functions.
\<close>

lemma instance_at_origin:
  "Complex_acsch eng Complex_zero = new_Complex NaN NaN"
  "Complex_asech eng Complex_zero = new_Complex NaN NaN"
  "Complex_acoth eng Complex_zero = new_Complex NaN NaN"
proof -
  show "Complex_acsch eng Complex_zero = new_Complex NaN NaN"
    by (simp add: Complex_acsch_def recip_zero Complex_asinh_def mul_nan asin_nan Let_def)
      (simp add: new_Complex_def nan_simps)
  show "Complex_asech eng Complex_zero = new_Complex NaN NaN"
    by (simp add: Complex_asech_def recip_zero acosh_nan)
  show "Complex_acoth eng Complex_zero = new_Complex NaN NaN"
    by (simp add: Complex_acoth_def recip_zero Complex_atanh_def mul_nan atan_nan)
qed

lemma s_of_set_s: "s_of (set_s (Some s) x) = Some s"
  by (cases x; cases s) auto

text \<open>
  C5: at the origin the static functions \<open>asech\<close> and \<open>acoth\<close> return the fixed values
  \<open>infinity\<close> and \<open>(0, pi/2)\<close>, and \<open>asech\<close> of a negative real input has the sign of its
  imaginary part set to +1. But the static \<open>acsch\<close> at the origin does not return
  \<open>(Infinity, 0)\<close>: it constructs a Complex from \<open>c.INFINITY\<close>, which is undefined, and the
  construction fails. The instance methods of complex.js return \<open>(NaN, NaN)\<close> at the
  origin.
\<close>

theorem C5_static_acsch_zero:
  "static_acsch eng (AComplex Complex_zero) = Inl InvalidNumericLiteral
   \<and> static_asech eng (AComplex Complex_zero) = Complex_infinity
   \<and> static_acoth eng (AComplex Complex_zero) = new_Complex ZERO (static_PI_OVER_TWO eng)
   \<and> (d_lt (re c) ZERO \<and> d_eq (im c) ZERO \<longrightarrow>
        s_of (im (static_asech eng (AComplex c))) = Some Pos)
   \<and> Complex_acsch eng Complex_zero = new_Complex NaN NaN
   \<and> Complex_asech eng Complex_zero = new_Complex NaN NaN
   \<and> Complex_acoth eng Complex_zero = new_Complex NaN NaN"
proof -
  have z: "d_eq ZERO ZERO" by (simp add: d_eq_refl ZERO_def)
  have neg: "d_lt (re c) ZERO \<Longrightarrow> \<not> d_eq (re c) ZERO"
    by (simp add: d_lt_def d_eq_def)
  show ?thesis
    using z neg
    by (simp add: static_acsch_def static_asech_def static_acoth_def Complex_zero_def
        new_Complex_def instance_at_origin [unfolded Complex_zero_def new_Complex_def]
        Let_def s_of_set_s)
qed

theorem C5_static_acsch_zero_witness:
  "s_of (im (static_asech plain_engine (AComplex (new_Complex (Fin (- 2)) ZERO)))) = Some Pos"
proof -
  have "d_lt (re (new_Complex (Fin (- 2)) ZERO)) ZERO
      \<and> d_eq (im (new_Complex (Fin (- 2)) ZERO)) ZERO"
    by (simp add: new_Complex_def d_lt_def d_eq_def cmp_def ZERO_def)
  then show ?thesis
    using C5_static_acsch_zero [of plain_engine "new_Complex (Fin (- 2)) ZERO"] by blast
qed

section \<open>The two classes compared\<close>

lemma d_plus_commute: "d_plus x y = d_plus y x"
  by (cases x; cases y) (auto simp add: d_plus_def add.commute)

lemma sign_mul_commute: "sign_mul s t = sign_mul t s"
  by (cases s; cases t) simp_all

lemma d_times_commute: "d_times x y = d_times y x"
  by (auto simp add: d_times_def sign_mul_commute mult.commute)

lemma Complex_mul_commute: "Complex_mul a b = Complex_mul b a"
  by (simp add: Complex_mul_def d_times_commute [of "re a"] d_times_commute [of "im a"]
      d_plus_commute [of "d_times (im b) (re a)"])

lemma static_multiply_eq: "static_multiply (AComplex a) (AComplex b) = Complex_mul a b"
  by (simp add: static_multiply_def Complex_mul_def d_minus_def
      d_plus_commute [of "d_neg (d_times (im a) (im b))"]
      d_plus_commute [of "d_times (im a) (re b)"])

lemma static_divide_eq: "static_divide eng (AComplex a) (AComplex b) = Complex_div eng a b"
  by (simp add: static_divide_def Complex_div_def)

lemma exponent_general_eq: "exponent_general eng c p = pow_general eng c p"
  by (simp add: exponent_general_def pow_general_def static_E_def E_def ONE_def)

lemma static_exponent_eq: "static_exponent eng (AComplex a) (AComplex b) = Complex_pow eng a b"
  by (cases "pow_fast eng a b")
    (simp_all add: static_exponent_def Complex_pow_def exponent_fast_eq exponent_general_eq)

lemma static_sqrt_eq: "static_sqrt eng (AComplex z) = Complex_sqrt eng z"
  by (simp add: static_sqrt_def Complex_sqrt_def static_exponent_eq [symmetric]
      static_exponent_def)

lemma static_asin_eq: "static_asin eng (AComplex z) = Complex_asin eng z"
  by (simp add: static_asin_def Complex_asin_def asin_sign_test_def)

lemma static_atan_eq: "static_atan eng (AComplex z) = Complex_atan eng z"
  by (simp add: static_atan_def Complex_atan_def)

lemma consts_eq: "Complex_i = I_const" "Complex_neg_i = NEG_I"
  by (simp_all add: Complex_i_def I_const_def Complex_neg_i_def NEG_I_def)

text \<open>
  C4 as stated fails: the two classes print in different formats, and the static class
  has special cases that the instance methods lack.
\<close>

theorem C4_classes_differ:
  "Complex_toString plain_engine (new_Complex (Fin 3) (Fin (- 4)))
     \<noteq> static_toString plain_engine (new_Complex (Fin 3) (Fin (- 4)))
   \<and> Complex_asech plain_engine Complex_zero
     \<noteq> static_asech plain_engine (AComplex Complex_zero)"
proof -
  have "Complex_toString plain_engine (new_Complex (Fin 3) (Fin (- 4))) = ''3 - 4i''"
    by code_simp
  moreover have "static_toString plain_engine (new_Complex (Fin 3) (Fin (- 4))) = ''-4i+3''"
    by code_simp
  moreover have "static_asech plain_engine (AComplex Complex_zero) = Complex_infinity"
    by (simp add: static_asech_def Complex_zero_def new_Complex_def d_eq_refl ZERO_def)
  ultimately show ?thesis
    by (simp add: instance_at_origin Complex_infinity_def new_Complex_def INFINITY_def)
qed

text \<open>
  C4, amended. For \<open>add\<close>, \<open>sub\<close>, \<open>mul\<close>, \<open>div\<close>, \<open>pow\<close>, \<open>sqrt\<close>, \<open>ln\<close>, \<open>sin\<close>, \<open>cos\<close>, \<open>tan\<close>,
  \<open>asin\<close>, \<open>atan\<close>, \<open>sinh\<close>, \<open>cosh\<close>, \<open>tanh\<close>, \<open>asinh\<close> and \<open>atanh\<close>, and for every Complex
  input, the instance method of complex.js and the static function of the
  static-function class compute the same result, when the helper functions that the
  static class does not declare are the engine's operations of the same name.
\<close>

theorem C4_instance_static_equal:
  "static_add (AComplex a) (AComplex b) = Complex_add a b
   \<and> static_subtract (AComplex a) (AComplex b) = Complex_sub a b
   \<and> static_multiply (AComplex a) (AComplex b) = Complex_mul a b
   \<and> static_divide eng (AComplex a) (AComplex b) = Complex_div eng a b
   \<and> static_exponent eng (AComplex a) (AComplex b) = Complex_pow eng a b
   \<and> static_sqrt eng (AComplex a) = Complex_sqrt eng a
   \<and> static_ln eng (AComplex a) = Complex_ln eng a
   \<and> static_sin eng (AComplex a) = Complex_sin eng a
   \<and> static_cos eng (AComplex a) = Complex_cos eng a
   \<and> static_tan eng (AComplex a) = Complex_tan eng a
   \<and> static_asin eng (AComplex a) = Complex_asin eng a
   \<and> static_atan eng (AComplex a) = Complex_atan eng a
   \<and> static_sinh eng (AComplex a) = Complex_sinh eng a
   \<and> static_cosh eng (AComplex a) = Complex_cosh eng a
   \<and> static_tanh eng (AComplex a) = Complex_tanh eng a
   \<and> static_asinh eng (AComplex a) = Complex_asinh eng a
   \<and> static_atanh eng (AComplex a) = Complex_atanh eng a"
proof -
  have trig: "static_sin eng (AComplex a) = Complex_sin eng a"
    "static_cos eng (AComplex a) = Complex_cos eng a"
    "static_sinh eng (AComplex a) = Complex_sinh eng a"
    "static_cosh eng (AComplex a) = Complex_cosh eng a"
    by (simp_all add: static_sin_def Complex_sin_def static_cos_def Complex_cos_def
        static_sinh_def Complex_sinh_def static_cosh_def Complex_cosh_def)
  have asinh: "static_asinh eng (AComplex a) = Complex_asinh eng a"
    by (simp add: static_asinh_def Complex_asinh_def static_multiply_eq static_asin_eq
        consts_eq Complex_mul_commute [of I_const] Complex_mul_commute [of NEG_I])
  have atanh: "static_atanh eng (AComplex a) = Complex_atanh eng a"
    by (simp add: static_atanh_def Complex_atanh_def static_multiply_eq static_atan_eq
        consts_eq Complex_mul_commute [of I_const] Complex_mul_commute [of NEG_I])
  show ?thesis
    by (simp add: static_add_def Complex_add_def static_subtract_def Complex_sub_def
        static_multiply_eq static_divide_eq static_exponent_eq static_sqrt_eq
        static_ln_def Complex_ln_def trig static_tan_def Complex_tan_def
        static_asin_eq static_atan_eq static_tanh_def Complex_tanh_def asinh atanh)
qed

section \<open>Inverse sine\<close>

lemma set_s_neg_of_pos: "s_of x = Some Pos \<Longrightarrow> set_s (Some Neg) x = d_neg x"
  by (cases x) (auto split: if_splits)

lemma asin_two_steps:
  "d_plus ONE TWO = Fin 3" "d_minus ONE TWO = Fin (- 1)"
  "d_plus (Fin 9) (Fin 0) = Fin 9" "d_plus (Fin 1) (Fin 0) = Fin 1"
  "d_sqrt (Fin 9) = Fin 3" "d_sqrt (Fin 1) = Fin 1"
  "d_div (d_minus (Fin 3) (Fin 1)) TWO = Fin 1"
  "d_div (d_plus (Fin 3) (Fin 1)) TWO = Fin 2"
  "d_minus (Fin 4) ONE = Fin 3"
  "d_plus (Fin 2) (d_sqrt (Fin 3)) = Fin asin2_ln_arg"
  by code_simp+

lemma asin_two_pows:
  "d_pow eng (Fin 3) TWO = Fin 9" "d_pow eng (Fin (- 1)) TWO = Fin 1"
  "d_pow eng ZERO TWO = Fin 0" "d_pow eng (Fin 2) TWO = Fin 4"
proof -
  have "finalise 9 = 9" "finalise 1 = 1" "finalise 4 = 4"
    using finalise_int [of 9] finalise_int [of 1] finalise_int [of 4] by simp_all
  then show "d_pow eng (Fin 3) TWO = Fin 9" "d_pow eng (Fin (- 1)) TWO = Fin 1"
    "d_pow eng (Fin 2) TWO = Fin 4"
    by (simp_all add: d_pow_def TWO_def)
  show "d_pow eng ZERO TWO = Fin 0"
    by (simp add: d_pow_zero_two ZERO_def)
qed

text \<open>\<open>asin 2\<close> in terms of the engine's \<open>asin\<close> and \<open>ln\<close>.\<close>

lemma asin_im_two: "asin_im eng (new_Complex TWO ZERO) = Fin (e_ln eng asin2_ln_arg)"
proof -
  have "0 < asin2_ln_arg" "asin2_ln_arg \<noteq> 1"
    by (simp_all add: asin2_ln_arg_def)
  then have l: "d_ln eng (Fin asin2_ln_arg) = Fin (e_ln eng asin2_ln_arg)"
    by (simp add: d_ln_def)
  have "asin_im eng (new_Complex TWO ZERO) = d_ln eng (Fin asin2_ln_arg)"
    by (simp add: asin_im_def asin_b_def new_Complex_def asin_two_steps
        asin_two_pows [unfolded ZERO_def] ZERO_def)
  then show ?thesis
    by (simp only: l)
qed

lemma asin_two:
  "Complex_asin eng (new_Complex TWO ZERO) = new_Complex (Fin (e_asin eng 1))
     (set_s (Some Neg) (Fin (e_ln eng asin2_ln_arg)))"
proof -
  have t: "asin_sign_test (new_Complex TWO ZERO)"
    by (simp add: asin_sign_test_def new_Complex_def d_lt_def d_gt_def d_lte_def cmp_def
        TWO_def ZERO_def)
  have a: "d_asin eng (Fin 1) = Fin (e_asin eng 1)"
    by (simp add: d_asin_def)
  have "Complex_asin eng (new_Complex TWO ZERO) = new_Complex (d_asin eng (Fin 1))
     (set_s (Some Neg) (asin_im eng (new_Complex TWO ZERO)))"
    using t by (simp add: Complex_asin_def asin_im_def asin_b_def Let_def new_Complex_def
        asin_two_steps asin_two_pows [unfolded ZERO_def] ZERO_def del: set_s.simps)
  then show ?thesis
    by (simp only: a asin_im_two)
qed

text \<open>
  When the engine's \<open>asin 1\<close> and \<open>ln 3.7320508075688772935\<close> are within \<open>1e-7\<close> of
  \<open>1.5707963267948966192\<close> and \<open>1.3169578969248167086\<close>, \<open>asin 2\<close> approx-equals
  \<open>(1.5707963267948966192, -1.3169578969248167086)\<close>.
\<close>

lemma finalise_abs_le: "\<bar>finalise d\<bar> \<le> 2 * \<bar>d\<bar>"
proof (cases "d = 0")
  case True
  then show ?thesis by (simp add: finalise_0)
next
  case False
  then have pos: "0 < \<bar>d\<bar>" by simp
  have "dexp \<bar>d\<bar> + 1 - int precision = dexp \<bar>d\<bar> + (- 19)"
    by (simp add: precision_def)
  then have "pow10 (dexp \<bar>d\<bar> + 1 - int precision) = pow10 (dexp \<bar>d\<bar>) * pow10 (- 19)"
    by (simp only: pow10_add)
  also have "\<dots> \<le> pow10 (dexp \<bar>d\<bar>) * 1"
    using pow10_pos [of "dexp \<bar>d\<bar>"] by (intro mult_left_mono) (simp_all add: pow10_def)
  also have "\<dots> \<le> \<bar>d\<bar>"
    using dexp_bounds [OF pos] by simp
  finally have "pow10 (dexp \<bar>d\<bar> + 1 - int precision) / 2 \<le> \<bar>d\<bar>"
    using pos by linarith
  with finalise_error [OF False] show ?thesis by linarith
qed

lemma d_lt_finite: "is_finite x \<Longrightarrow> is_finite y \<Longrightarrow> d_lt x y = (val x < val y)"
  by (auto simp add: d_lt_def cmp_def rank_finite is_finite_not_nan)

lemma abs_finite: "is_finite x \<Longrightarrow> is_finite (d_abs x) \<and> val (d_abs x) = \<bar>val x\<bar>"
  by (cases x) simp_all

lemma approx_close:
  assumes "\<bar>x - c\<bar> < 1 / 10 ^ 7"
  shows "d_lt (d_abs (d_minus (Fin x) (Fin c))) (Fin (1 / 10 ^ 6))"
proof -
  have m: "is_finite (d_minus (Fin x) (Fin c))"
    "val (d_minus (Fin x) (Fin c)) = finalise (x - c)"
    using minus_finite [of "Fin x" "Fin c"] by simp_all
  have "\<bar>finalise (x - c)\<bar> \<le> 2 * \<bar>x - c\<bar>" by (rule finalise_abs_le)
  then have "\<bar>finalise (x - c)\<bar> < 1 / 10 ^ 6" using assms by simp
  then show ?thesis
    using abs_finite [OF m(1)] m(2) by (simp add: d_lt_finite)
qed

lemma asin_two_approx:
  assumes "\<bar>e_asin eng 1 - asin2_re\<bar> < 1 / 10 ^ 7"
    and "\<bar>e_ln eng asin2_ln_arg - asin2_im\<bar> < 1 / 10 ^ 7"
  shows "static_approxEquals (Complex_asin eng (new_Complex TWO ZERO))
           (new_Complex (Fin asin2_re) (Fin (- asin2_im)))"
proof -
  define L where "L = e_ln eng asin2_ln_arg"
  have "1 < asin2_im" by (simp add: asin2_im_def)
  moreover have "(1::rat) / 10 ^ 7 < 1" by simp
  ultimately have L: "0 < L" using assms(2) unfolding L_def by linarith
  then have s: "set_s (Some Neg) (Fin L) = Fin (- L)" by simp
  have "\<bar>- L - (- asin2_im)\<bar> < 1 / 10 ^ 7"
    using assms(2) unfolding L_def by linarith
  then have "d_lt (d_abs (d_minus (Fin (- L)) (Fin (- asin2_im)))) (Fin (1 / 10 ^ 6))"
    by (rule approx_close)
  then show ?thesis
    using approx_close [OF assms(1)]
    unfolding asin_two L_def [symmetric] s
    by (simp add: static_approxEquals_def new_Complex_def)
qed

text \<open>
  With a NaN real part and a negative imaginary part, every intermediate value is NaN and
  the sign test holds: the sign assignment turns the NaN imaginary component into
  negative infinity, for every engine.
\<close>

lemma asin_nan_minus_i:
  "asin_sign_test (new_Complex NaN (Fin (- 1)))"
  "asin_im eng (new_Complex NaN (Fin (- 1))) = NaN"
  "im (Complex_asin eng (new_Complex NaN (Fin (- 1)))) = Infty Neg"
  by (simp_all add: asin_sign_test_def asin_im_def asin_b_def Complex_asin_def new_Complex_def
      nan_simps Let_def d_lt_def cmp_def ZERO_def)

text \<open>
  C7: \<open>asin z\<close> (instance method and static function) computes
  \<open>a = (sqrt ((1+re)\<^sup>2+im\<^sup>2) - sqrt ((1-re)\<^sup>2+im\<^sup>2)) / 2\<close> and \<open>b\<close>, the corresponding
  half-sum, and returns \<open>(asin a, ln (b + sqrt (b\<^sup>2-1)))\<close>; exactly when \<open>z.im < 0\<close> or
  (\<open>z.re > 0\<close> and \<open>z.im \<le> 0\<close>) it assigns -1 to the sign of the imaginary component,
  which is its negation when that sign is +1; \<open>asin 2\<close> is the engine's \<open>asin 1\<close> with the
  engine's \<open>ln 3.7320508075688772935\<close> made negative. But the assignment is not a
  negation on a NaN component: \<open>asin (NaN - i)\<close> has the imaginary part \<open>-Infinity\<close>,
  where the negation of the computed NaN is NaN.
\<close>

theorem C7_asin:
  "re (Complex_asin eng z) = d_asin eng (asin_a eng z)
   \<and> im (Complex_asin eng z) =
       (if d_lt (im z) ZERO \<or> (d_gt (re z) ZERO \<and> d_lte (im z) ZERO)
        then set_s (Some Neg) (asin_im eng z) else asin_im eng z)
   \<and> (s_of (asin_im eng z) = Some Pos \<longrightarrow>
        set_s (Some Neg) (asin_im eng z) = d_neg (asin_im eng z))
   \<and> static_asin eng (AComplex z) = Complex_asin eng z
   \<and> Complex_asin eng (new_Complex TWO ZERO) = new_Complex (Fin (e_asin eng 1))
        (set_s (Some Neg) (Fin (e_ln eng asin2_ln_arg)))
   \<and> asin_sign_test (new_Complex NaN (Fin (- 1)))
   \<and> asin_im eng (new_Complex NaN (Fin (- 1))) = NaN
   \<and> im (Complex_asin eng (new_Complex NaN (Fin (- 1)))) = Infty Neg
   \<and> im (Complex_asin eng (new_Complex NaN (Fin (- 1))))
       \<noteq> d_neg (asin_im eng (new_Complex NaN (Fin (- 1))))"
proof -
  have gen: "re (Complex_asin eng z) = d_asin eng (asin_a eng z)"
    "im (Complex_asin eng z) =
       (if d_lt (im z) ZERO \<or> (d_gt (re z) ZERO \<and> d_lte (im z) ZERO)
        then set_s (Some Neg) (asin_im eng z) else asin_im eng z)"
    by (simp_all add: Complex_asin_def asin_a_def asin_b_def asin_im_def asin_sign_test_def
        new_Complex_def Let_def)
  have nan: "im (Complex_asin eng (new_Complex NaN (Fin (- 1))))
       \<noteq> d_neg (asin_im eng (new_Complex NaN (Fin (- 1))))"
    by (simp only: asin_nan_minus_i) simp
  show ?thesis
    using gen set_s_neg_of_pos [of "asin_im eng z"] static_asin_eq [of eng z]
      asin_two [of eng] asin_nan_minus_i nan
    by (simp del: set_s.simps)
qed

theorem C7_asin_witness:
  "set_s (Some Neg) (asin_im (plain_engine\<lparr>e_ln := \<lambda>q. asin2_im\<rparr>) (new_Complex TWO ZERO))
     = d_neg (asin_im (plain_engine\<lparr>e_ln := \<lambda>q. asin2_im\<rparr>) (new_Complex TWO ZERO))
   \<and> asin_im (plain_engine\<lparr>e_ln := \<lambda>q. asin2_im\<rparr>) (new_Complex TWO ZERO)
     = Fin asin2_im"
proof -
  have p: "s_of (Fin asin2_im) = Some Pos"
    by (simp add: asin2_im_def)
  show ?thesis
    using C7_asin [of "plain_engine\<lparr>e_ln := \<lambda>q. asin2_im\<rparr>" "new_Complex TWO ZERO"] p
    by (simp add: asin_im_two del: set_s.simps s_of.simps)
qed

end
